theory Spec2Isabelle
  imports Complex_Main
begin

section \<open>Soorj: the tree-walking evaluator (interpreter.py)\<close>

text \<open>
  Python strings are held as Isabelle strings of their UTF-8 bytes: the evaluator only
  compares strings, concatenates them and tests them for emptiness, and UTF-8 keeps all
  three. The Armenian keywords and built-in names the evaluator mentions are spelled out
  byte by byte.
\<close>

definition kw_and :: string where
  "kw_and = [CHR 0xD6, CHR 0x87]"

definition kw_or :: string where
  "kw_or = [CHR 0xD5, CHR 0xAF, CHR 0xD5, CHR 0xA1, CHR 0xD5, CHR 0xB4]"

definition kw_not :: string where
  "kw_not = [CHR 0xD5, CHR 0xB9, CHR 0xD5, CHR 0xAB]"

definition str_null :: string where
  "str_null = [CHR 0xD5, CHR 0xB0, CHR 0xD5, CHR 0xA5, CHR 0xD5, CHR 0xB9]"

definition str_yes :: string where
  "str_yes = [CHR 0xD5, CHR 0xA1, CHR 0xD5, CHR 0xB5, CHR 0xD5, CHR 0xB8]"

definition str_no :: string where
  "str_no = [CHR 0xD5, CHR 0xB8, CHR 0xD5, CHR 0xB9]"

definition name_gre :: string where
  "name_gre = [CHR 0xD5, CHR 0xA3, CHR 0xD6, CHR 0x80, CHR 0xD5, CHR 0xA7]"

definition name_tiv :: string where
  "name_tiv = [CHR 0xD5, CHR 0xA9, CHR 0xD5, CHR 0xAB, CHR 0xD5, CHR 0xBE]"

definition name_bar :: string where
  "name_bar = [CHR 0xD5, CHR 0xA2, CHR 0xD5, CHR 0xA1, CHR 0xD5, CHR 0xBC]"

subsection \<open>AST nodes (parser.py) and values\<close>

text \<open>
  The number type \<open>'n\<close> stands for the host's numbers (Python floats, and the ints 0 and 1
  that the built-in \<open>name_tiv\<close> makes). Their arithmetic is not code of this repository;
  it is a parameter of the evaluator, the record \<open>host\<close> below.
\<close>

datatype 'n ASTNode =
    NumberLiteral 'n
  | StringLiteral string
  | BooleanLiteral bool
  | NullLiteral
  | Identifier string
  | BinaryOp "'n ASTNode" string "'n ASTNode"
  | UnaryOp string "'n ASTNode"
  | Assignment string "'n ASTNode"
  | FunctionCall string "'n ASTNode list"
  | ExpressionStatement "'n ASTNode"
  | IfStatement "'n ASTNode" "'n ASTNode list" "'n ASTNode list option"
  | WhileStatement "'n ASTNode" "'n ASTNode list"
  | ReturnStatement "'n ASTNode option"
  | FunctionDeclaration string "string list" "'n ASTNode list"
  | Program "'n ASTNode list"

datatype builtin = Gre | Tiv | Bar

text \<open>
  A function object is a \<open>SoorjFunction\<close> (name, parameters, body) or a
  \<open>BuiltinFunction\<close> (name, native operation). Neither stores an environment.
\<close>

datatype 'n callable =
    SoorjFunction string "string list" "'n ASTNode list"
  | BuiltinFunction string builtin

text \<open>
  \<open>SoorjValue(value, type_name)\<close>, one constructor for each type name. A function value
  carries the identity of its function object (a number given at creation), because
  \<open>==\<close> on function objects is identity in the host.
\<close>

datatype 'n SoorjValue =
    NullV
  | BooleanV bool
  | NumberV 'n
  | StringV string
  | FunctionV nat "'n callable"

fun type_name :: "'n SoorjValue \<Rightarrow> string" where
  "type_name NullV = ''null''"
| "type_name (BooleanV b) = ''boolean''"
| "type_name (NumberV x) = ''number''"
| "type_name (StringV s) = ''string''"
| "type_name (FunctionV i f) = ''function''"

subsection \<open>The host's numbers and renderings\<close>

record 'n host =
  h_add :: "'n \<Rightarrow> 'n \<Rightarrow> 'n"
  h_sub :: "'n \<Rightarrow> 'n \<Rightarrow> 'n"
  h_mul :: "'n \<Rightarrow> 'n \<Rightarrow> 'n"
  h_truediv :: "'n \<Rightarrow> 'n \<Rightarrow> 'n"
  h_mod :: "'n \<Rightarrow> 'n \<Rightarrow> 'n"
  h_neg :: "'n \<Rightarrow> 'n"
  h_eq :: "'n \<Rightarrow> 'n \<Rightarrow> bool"
  h_lt :: "'n \<Rightarrow> 'n \<Rightarrow> bool"
  h_gt :: "'n \<Rightarrow> 'n \<Rightarrow> bool"
  h_le :: "'n \<Rightarrow> 'n \<Rightarrow> bool"
  h_ge :: "'n \<Rightarrow> 'n \<Rightarrow> bool"
  h_int :: "int \<Rightarrow> 'n"
  h_str :: "'n \<Rightarrow> string"
  h_float :: "string \<Rightarrow> 'n option"
  h_str_object :: "nat \<Rightarrow> string"

text \<open>
  \<open>h_int\<close> embeds a Python int; \<open>h_str\<close> is \<open>str\<close> on a number; \<open>h_float s\<close> is
  \<open>float(s)\<close>, \<open>None\<close> where the host raises ValueError; \<open>h_str_object i\<close> is \<open>str\<close> on
  the function object of identity \<open>i\<close> (the default rendering, which shows an address).
  \<open>h_truediv\<close> and \<open>h_mod\<close> give the quotient and the remainder for a divisor that is
  not zero; on a zero divisor the host raises ZeroDivisionError, which \<open>py_truediv\<close> and
  \<open>py_mod\<close> write out. The operations are total otherwise: the limits of the host (the
  recursion limit, and the OverflowError for an int too large for a double) are not
  part of the model.
\<close>

datatype 'n exn =
    RuntimeError string
  | ReturnValue "'n SoorjValue"
  | ZeroDivisionError
  | OutOfFuel

text \<open>
  \<open>RuntimeError\<close>, \<open>ReturnValue\<close> and \<open>ZeroDivisionError\<close> are the Python exceptions the
  evaluator can raise. \<open>OutOfFuel\<close> is no exception of the program: it is the value of a
  run that did not finish within the fuel given to it, and no handler catches it.
\<close>

definition py_truediv :: "'n host \<Rightarrow> 'n \<Rightarrow> 'n \<Rightarrow> 'n exn + 'n" where
  "py_truediv H a b = (if h_eq H b (h_int H 0) then Inl ZeroDivisionError else Inr (h_truediv H a b))"

definition py_mod :: "'n host \<Rightarrow> 'n \<Rightarrow> 'n \<Rightarrow> 'n exn + 'n" where
  "py_mod H a b = (if h_eq H b (h_int H 0) then Inl ZeroDivisionError else Inr (h_mod H a b))"

text \<open>\<open>SoorjValue.__str__\<close>: the display form.\<close>

fun display :: "'n host \<Rightarrow> 'n SoorjValue \<Rightarrow> string" where
  "display H NullV = str_null"
| "display H (BooleanV b) = (if b then str_yes else str_no)"
| "display H (StringV s) = s"
| "display H (NumberV x) = h_str H x"
| "display H (FunctionV i f) = h_str_object H i"

text \<open>\<open>str(v.value)\<close>: the host's rendering of the underlying Python value.\<close>

fun str_value :: "'n host \<Rightarrow> 'n SoorjValue \<Rightarrow> string" where
  "str_value H NullV = ''None''"
| "str_value H (BooleanV b) = (if b then ''True'' else ''False'')"
| "str_value H (StringV s) = s"
| "str_value H (NumberV x) = h_str H x"
| "str_value H (FunctionV i f) = h_str_object H i"

text \<open>\<open>SoorjValue.is_truthy\<close>.\<close>

fun is_truthy :: "'n host \<Rightarrow> 'n SoorjValue \<Rightarrow> bool" where
  "is_truthy H NullV = False"
| "is_truthy H (BooleanV b) = b"
| "is_truthy H (NumberV x) = (\<not> h_eq H x (h_int H 0))"
| "is_truthy H (StringV s) = (length s > 0)"
| "is_truthy H (FunctionV i f) = True"

text \<open>
  \<open>a.value == b.value\<close> in the host. \<open>None\<close> equals only \<open>None\<close>; a string equals only an
  equal string; a function object equals only itself; numbers compare as numbers, and
  a Python bool is an int (\<open>True\<close> is 1, \<open>False\<close> is 0), so a bool and a number compare
  as numbers too.
\<close>

fun value_eq :: "'n host \<Rightarrow> 'n SoorjValue \<Rightarrow> 'n SoorjValue \<Rightarrow> bool" where
  "value_eq H NullV NullV = True"
| "value_eq H (BooleanV a) (BooleanV b) = (a = b)"
| "value_eq H (BooleanV a) (NumberV y) = h_eq H (h_int H (if a then 1 else 0)) y"
| "value_eq H (NumberV x) (BooleanV b) = h_eq H x (h_int H (if b then 1 else 0))"
| "value_eq H (NumberV x) (NumberV y) = h_eq H x y"
| "value_eq H (StringV s) (StringV t) = (s = t)"
| "value_eq H (FunctionV i f) (FunctionV j g) = (i = j)"
| "value_eq H a b = False"

subsection \<open>Environments\<close>

text \<open>
  \<open>class Environment\<close>: a dictionary and an optional parent. The only references to an
  environment object are the interpreter's current environment and the parent links
  below it (no value holds one), so an environment is held as a value that contains its
  parent, and a change made to a parent's dictionary through the chain is a change of
  that component.
\<close>

datatype 'n Environment =
  Environment (variables: "string \<rightharpoonup> 'n SoorjValue") (parent: "'n Environment option")

fun Environment_define :: "'n Environment \<Rightarrow> string \<Rightarrow> 'n SoorjValue \<Rightarrow> 'n Environment" where
  "Environment_define (Environment vars p) name v = Environment (vars(name \<mapsto> v)) p"

fun Environment_get :: "'n Environment \<Rightarrow> string \<Rightarrow> 'n exn + 'n SoorjValue" where
  "Environment_get (Environment vars p) name =
     (case vars name of
        Some v \<Rightarrow> Inr v
      | None \<Rightarrow>
          (case p of
             Some q \<Rightarrow> Environment_get q name
           | None \<Rightarrow> Inl (RuntimeError (''Undefined variable '' @ [CHR 0x27] @ name @ [CHR 0x27]))))"

fun Environment_assign :: "'n Environment \<Rightarrow> string \<Rightarrow> 'n SoorjValue \<Rightarrow> 'n exn + 'n Environment" where
  "Environment_assign (Environment vars p) name v =
     (if vars name \<noteq> None then Inr (Environment (vars(name \<mapsto> v)) p)
      else
        (case p of
           Some q \<Rightarrow>
             (case Environment_assign q name v of
                Inl e \<Rightarrow> Inl e
              | Inr q' \<Rightarrow> Inr (Environment vars (Some q')))
         | None \<Rightarrow> Inl (RuntimeError (''Undefined variable '' @ [CHR 0x27] @ name @ [CHR 0x27]))))"

subsection \<open>The interpreter's state and the built-in functions\<close>

text \<open>
  The state of an \<open>Interpreter\<close> object: its current environment, the lines printed to
  standard output so far, and the identity the next function object will get.
\<close>

record 'n Interpreter =
  environment :: "'n Environment"
  printed :: "string list"
  next_id :: nat

type_synonym ('n, 'a) result = "('n exn + 'a) \<times> 'n Interpreter"

text \<open>Sequencing: an exception of the first step ends the run of the second.\<close>

fun and_then ::
  "('n, 'a) result \<Rightarrow> ('a \<Rightarrow> 'n Interpreter \<Rightarrow> ('n, 'b) result) \<Rightarrow> ('n, 'b) result" where
  "and_then (Inl e, s) f = (Inl e, s)"
| "and_then (Inr v, s) f = f v s"

text \<open>\<open>" ".join(xs)\<close>.\<close>

fun join_space :: "string list \<Rightarrow> string" where
  "join_space [] = []"
| "join_space [x] = x"
| "join_space (x # y # ys) = x @ '' '' @ join_space (y # ys)"

definition builtin_gre :: "'n host \<Rightarrow> 'n SoorjValue list \<Rightarrow> 'n Interpreter \<Rightarrow> ('n, 'n SoorjValue) result" where
  "builtin_gre H args s =
     (if length args = 0 then (Inr NullV, s\<lparr>printed := printed s @ [[]]\<rparr>)
      else (Inr NullV, s\<lparr>printed := printed s @ [join_space (map (display H) args)]\<rparr>))"

fun builtin_tiv :: "'n host \<Rightarrow> 'n SoorjValue list \<Rightarrow> 'n exn + 'n SoorjValue" where
  "builtin_tiv H [NumberV x] = Inr (NumberV x)"
| "builtin_tiv H [StringV t] =
     (case h_float H t of
        Some x \<Rightarrow> Inr (NumberV x)
      | None \<Rightarrow> Inr (NumberV (h_int H 0)))"
| "builtin_tiv H [BooleanV b] = Inr (NumberV (h_int H (if b then 1 else 0)))"
| "builtin_tiv H [arg] = Inr (NumberV (h_int H 0))"
| "builtin_tiv H args = Inl (RuntimeError (name_tiv @ '' expects exactly 1 argument''))"

fun builtin_bar :: "'n host \<Rightarrow> 'n SoorjValue list \<Rightarrow> 'n exn + 'n SoorjValue" where
  "builtin_bar H [StringV t] = Inr (StringV t)"
| "builtin_bar H [NullV] = Inr (StringV [])"
| "builtin_bar H [arg] = Inr (StringV (str_value H arg))"
| "builtin_bar H args = Inl (RuntimeError (name_bar @ '' expects exactly 1 argument''))"

text \<open>\<open>BuiltinFunction.call\<close>: the native operation on the evaluated arguments.\<close>

fun BuiltinFunction_call ::
  "'n host \<Rightarrow> builtin \<Rightarrow> 'n SoorjValue list \<Rightarrow> 'n Interpreter \<Rightarrow> ('n, 'n SoorjValue) result" where
  "BuiltinFunction_call H Gre args s = builtin_gre H args s"
| "BuiltinFunction_call H Tiv args s = (builtin_tiv H args, s)"
| "BuiltinFunction_call H Bar args s = (builtin_bar H args, s)"

text \<open>\<open>Interpreter.__init__\<close> with \<open>setup_builtins\<close>: a root environment with the three built-ins.\<close>

definition Interpreter_init :: "'n Interpreter" where
  "Interpreter_init =
     \<lparr>environment =
        Environment_define
          (Environment_define
            (Environment_define (Environment Map.empty None)
               name_gre (FunctionV 0 (BuiltinFunction name_gre Gre)))
            name_tiv (FunctionV 1 (BuiltinFunction name_tiv Tiv)))
          name_bar (FunctionV 2 (BuiltinFunction name_bar Bar)),
      printed = [],
      next_id = 3\<rparr>"

subsection \<open>Operators on evaluated operands\<close>

fun number_operands :: "'n SoorjValue \<Rightarrow> 'n SoorjValue \<Rightarrow> ('n \<times> 'n) option" where
  "number_operands (NumberV a) (NumberV b) = Some (a, b)"
| "number_operands left right = None"

text \<open>
  The operator dispatch of \<open>evaluate_binary_op\<close>, after both operands have been
  evaluated: the branches in the order of the source.
\<close>

definition binary_op :: "'n host \<Rightarrow> string \<Rightarrow> 'n SoorjValue \<Rightarrow> 'n SoorjValue \<Rightarrow> 'n exn + 'n SoorjValue" where
  "binary_op H operator left right =
     (if operator = ''+'' then
        (case number_operands left right of
           Some (a, b) \<Rightarrow> Inr (NumberV (h_add H a b))
         | None \<Rightarrow>
             if type_name left = ''string'' \<or> type_name right = ''string''
             then Inr (StringV (str_value H left @ str_value H right))
             else Inl (RuntimeError ''Invalid operands for +''))
      else if operator = ''-'' then
        (case number_operands left right of
           Some (a, b) \<Rightarrow> Inr (NumberV (h_sub H a b))
         | None \<Rightarrow> Inl (RuntimeError ''Invalid operands for -''))
      else if operator = ''*'' then
        (case number_operands left right of
           Some (a, b) \<Rightarrow> Inr (NumberV (h_mul H a b))
         | None \<Rightarrow> Inl (RuntimeError ''Invalid operands for *''))
      else if operator = ''/'' then
        (case number_operands left right of
           Some (a, b) \<Rightarrow>
             if h_eq H b (h_int H 0) then Inl (RuntimeError ''Division by zero'')
             else map_sum id NumberV (py_truediv H a b)
         | None \<Rightarrow> Inl (RuntimeError ''Invalid operands for /''))
      else if operator = ''%'' then
        (case number_operands left right of
           Some (a, b) \<Rightarrow> map_sum id NumberV (py_mod H a b)
         | None \<Rightarrow> Inl (RuntimeError ''Invalid operands for %''))
      else if operator = ''=='' then Inr (BooleanV (value_eq H left right))
      else if operator = ''!='' then Inr (BooleanV (\<not> value_eq H left right))
      else if operator = ''<'' then
        (case number_operands left right of
           Some (a, b) \<Rightarrow> Inr (BooleanV (h_lt H a b))
         | None \<Rightarrow> Inl (RuntimeError ''Invalid operands for <''))
      else if operator = ''>'' then
        (case number_operands left right of
           Some (a, b) \<Rightarrow> Inr (BooleanV (h_gt H a b))
         | None \<Rightarrow> Inl (RuntimeError ''Invalid operands for >''))
      else if operator = ''<='' then
        (case number_operands left right of
           Some (a, b) \<Rightarrow> Inr (BooleanV (h_le H a b))
         | None \<Rightarrow> Inl (RuntimeError ''Invalid operands for <=''))
      else if operator = ''>='' then
        (case number_operands left right of
           Some (a, b) \<Rightarrow> Inr (BooleanV (h_ge H a b))
         | None \<Rightarrow> Inl (RuntimeError ''Invalid operands for >=''))
      else if operator = kw_and then Inr (BooleanV (is_truthy H left \<and> is_truthy H right))
      else if operator = kw_or then Inr (BooleanV (is_truthy H left \<or> is_truthy H right))
      else Inl (RuntimeError (''Unknown binary operator: '' @ operator)))"

definition unary_op :: "'n host \<Rightarrow> string \<Rightarrow> 'n SoorjValue \<Rightarrow> 'n exn + 'n SoorjValue" where
  "unary_op H operator operand =
     (if operator = ''-'' then
        (case operand of
           NumberV x \<Rightarrow> Inr (NumberV (h_neg H x))
         | _ \<Rightarrow> Inl (RuntimeError ''Invalid operand for unary -''))
      else if operator = kw_not \<or> operator = ''not'' then Inr (BooleanV (\<not> is_truthy H operand))
      else Inl (RuntimeError (''Unknown unary operator: '' @ operator)))"

subsection \<open>Text of the error messages\<close>

text \<open>\<open>str\<close> of a non-negative Python int, for the arity message.\<close>

fun str_nat :: "nat \<Rightarrow> string" where
  "str_nat n =
     (if n < 10 then [char_of (48 + n)]
      else str_nat (n div 10) @ [char_of (48 + n mod 10)])"

declare str_nat.simps [simp del]

text \<open>\<open>type(node)\<close> as the host prints it in the message for an unknown node type.\<close>

fun class_name :: "'n ASTNode \<Rightarrow> string" where
  "class_name (NumberLiteral x) = ''NumberLiteral''"
| "class_name (StringLiteral t) = ''StringLiteral''"
| "class_name (BooleanLiteral b) = ''BooleanLiteral''"
| "class_name NullLiteral = ''NullLiteral''"
| "class_name (Identifier x) = ''Identifier''"
| "class_name (BinaryOp l operator r) = ''BinaryOp''"
| "class_name (UnaryOp operator e) = ''UnaryOp''"
| "class_name (Assignment x e) = ''Assignment''"
| "class_name (FunctionCall f args) = ''FunctionCall''"
| "class_name (ExpressionStatement e) = ''ExpressionStatement''"
| "class_name (IfStatement c t e) = ''IfStatement''"
| "class_name (WhileStatement c b) = ''WhileStatement''"
| "class_name (ReturnStatement v) = ''ReturnStatement''"
| "class_name (FunctionDeclaration f ps b) = ''FunctionDeclaration''"
| "class_name (Program ss) = ''Program''"

definition unknown_node_type :: "'n ASTNode \<Rightarrow> 'n exn" where
  "unknown_node_type node =
     RuntimeError (''Unknown node type: <class '' @ [CHR 0x27] @ ''parser.'' @ class_name node @ [CHR 0x27] @ ''>'')"

definition arity_error :: "string \<Rightarrow> nat \<Rightarrow> nat \<Rightarrow> 'n exn" where
  "arity_error name expected got =
     RuntimeError (''Function '' @ name @ '' expects '' @ str_nat expected @ '' arguments, got '' @ str_nat got)"

subsection \<open>Calls: the environment of a call\<close>

text \<open>
  \<open>SoorjFunction.call\<close>, lines 57 to 62: a new environment whose parent is the
  interpreter's current one, and then each parameter defined in it, in order.
\<close>

definition push_environment :: "string list \<Rightarrow> 'n SoorjValue list \<Rightarrow> 'n Interpreter \<Rightarrow> 'n Interpreter" where
  "push_environment parameters arguments s =
     (let prev_env = environment s
      in s\<lparr>environment :=
             fold (\<lambda>(param, arg) env. Environment_define env param arg)
               (zip parameters arguments) (Environment Map.empty (Some prev_env))\<rparr>)"

text \<open>
  The \<open>finally\<close> clause: \<open>interpreter.environment = prev_env\<close>. The object \<open>prev_env\<close> is
  the parent of the environment of the call, and the body may have changed its
  dictionary through the chain; so the restored environment is the parent component of
  the current one. (Every call inside the body has restored the current environment
  in the same way before the body ends, so the current environment at that point is
  the one the call pushed; see \<open>call_restores_callers_environment\<close>.)
\<close>

definition restore_environment :: "'n Interpreter \<Rightarrow> 'n Interpreter" where
  "restore_environment s =
     (case parent (environment s) of
        Some prev_env \<Rightarrow> s\<lparr>environment := prev_env\<rparr>
      | None \<Rightarrow> s)"

subsection \<open>Evaluation and execution\<close>

text \<open>
  The evaluator recurses into the tree, loops in \<open>while\<close> and follows calls of user
  functions, so a run need not end. \<open>evaluate\<close> and \<open>execute\<close> therefore take fuel: a
  call with no fuel answers \<open>OutOfFuel\<close>, and a call with fuel \<open>Suc n\<close> runs the body of
  the source method, in which every \<open>self.evaluate\<close> and \<open>self.execute\<close> has fuel \<open>n\<close>.
  The methods are written first with these two inner calls as the parameters \<open>eval\<close> and
  \<open>exec\<close>; \<open>evaluate\<close> and \<open>execute\<close> then close the recursion.
\<close>

type_synonym 'n evaluator = "'n ASTNode \<Rightarrow> 'n Interpreter \<Rightarrow> ('n, 'n SoorjValue) result"

type_synonym 'n executor = "'n ASTNode \<Rightarrow> 'n Interpreter \<Rightarrow> ('n, 'n SoorjValue option) result"

text \<open>The loop \<open>for stmt in stmts: self.execute(stmt)\<close>.\<close>

fun execute_all :: "'n executor \<Rightarrow> 'n ASTNode list \<Rightarrow> 'n Interpreter \<Rightarrow> ('n, unit) result" where
  "execute_all exec [] s = (Inr (), s)"
| "execute_all exec (stmt # stmts) s =
     and_then (exec stmt s) (\<lambda>r s1. execute_all exec stmts s1)"

text \<open>The list comprehension \<open>[self.evaluate(arg) for arg in node.arguments]\<close>.\<close>

fun evaluate_arguments ::
  "'n evaluator \<Rightarrow> 'n ASTNode list \<Rightarrow> 'n Interpreter \<Rightarrow> ('n, 'n SoorjValue list) result" where
  "evaluate_arguments eval [] s = (Inr [], s)"
| "evaluate_arguments eval (arg # args) s =
     and_then (eval arg s) (\<lambda>v s1.
     and_then (evaluate_arguments eval args s1) (\<lambda>vs s2. (Inr (v # vs), s2)))"

text \<open>
  The loop of the \<open>WhileStatement\<close> branch of \<open>execute\<close>; the first argument bounds the
  number of times the condition is evaluated.
\<close>

fun execute_while ::
  "nat \<Rightarrow> 'n evaluator \<Rightarrow> 'n executor \<Rightarrow> 'n host \<Rightarrow> 'n ASTNode \<Rightarrow> 'n ASTNode list \<Rightarrow> 'n Interpreter
    \<Rightarrow> ('n, unit) result" where
  "execute_while 0 eval exec H c body s = (Inl OutOfFuel, s)"
| "execute_while (Suc k) eval exec H c body s =
     and_then (eval c s) (\<lambda>condition s1.
       if \<not> is_truthy H condition then (Inr (), s1)
       else and_then (execute_all exec body s1) (\<lambda>u s2. execute_while k eval exec H c body s2))"

text \<open>\<open>SoorjFunction.call\<close>.\<close>

definition SoorjFunction_call ::
  "'n executor \<Rightarrow> string \<Rightarrow> string list \<Rightarrow> 'n ASTNode list \<Rightarrow> 'n SoorjValue list \<Rightarrow> 'n Interpreter
    \<Rightarrow> ('n, 'n SoorjValue) result" where
  "SoorjFunction_call exec fname parameters body arguments s =
     (if length arguments \<noteq> length parameters
      then (Inl (arity_error fname (length parameters) (length arguments)), s)
      else
        (case execute_all exec body (push_environment parameters arguments s) of
           (Inr u, s') \<Rightarrow> (Inr NullV, restore_environment s')
         | (Inl (ReturnValue v), s') \<Rightarrow> (Inr v, restore_environment s')
         | (Inl e, s') \<Rightarrow> (Inl e, restore_environment s')))"

text \<open>\<open>Interpreter.evaluate_binary_op\<close>: both operands, then the operator.\<close>

definition evaluate_binary_op ::
  "'n evaluator \<Rightarrow> 'n host \<Rightarrow> 'n ASTNode \<Rightarrow> string \<Rightarrow> 'n ASTNode \<Rightarrow> 'n Interpreter \<Rightarrow> ('n, 'n SoorjValue) result" where
  "evaluate_binary_op eval H l operator r s =
     and_then (eval l s) (\<lambda>left s1.
     and_then (eval r s1) (\<lambda>right s2.
       (binary_op H operator left right, s2)))"

text \<open>\<open>Interpreter.evaluate_unary_op\<close>.\<close>

definition evaluate_unary_op ::
  "'n evaluator \<Rightarrow> 'n host \<Rightarrow> string \<Rightarrow> 'n ASTNode \<Rightarrow> 'n Interpreter \<Rightarrow> ('n, 'n SoorjValue) result" where
  "evaluate_unary_op eval H operator e s =
     and_then (eval e s) (\<lambda>operand s1. (unary_op H operator operand, s1))"

text \<open>
  \<open>Interpreter.evaluate_function_call\<close>: the callee is looked up, then its tag is
  checked, then the arguments are evaluated, then \<open>func.call\<close> runs (the method of the
  function object's class).
\<close>

definition evaluate_function_call ::
  "'n evaluator \<Rightarrow> 'n executor \<Rightarrow> 'n host \<Rightarrow> string \<Rightarrow> 'n ASTNode list \<Rightarrow> 'n Interpreter
    \<Rightarrow> ('n, 'n SoorjValue) result" where
  "evaluate_function_call eval exec H name args s =
     (case Environment_get (environment s) name of
        Inl e \<Rightarrow> (Inl e, s)
      | Inr function_value \<Rightarrow>
          (case function_value of
             FunctionV i func \<Rightarrow>
               and_then (evaluate_arguments eval args s) (\<lambda>vs s1.
                 case func of
                   SoorjFunction fname parameters body \<Rightarrow>
                     SoorjFunction_call exec fname parameters body vs s1
                 | BuiltinFunction fname b \<Rightarrow> BuiltinFunction_call H b vs s1)
           | _ \<Rightarrow> (Inl (RuntimeError ([CHR 0x27] @ name @ [CHR 0x27] @ '' is not a function'')), s)))"

text \<open>The body of \<open>Interpreter.evaluate\<close>.\<close>

fun evaluate_body ::
  "'n evaluator \<Rightarrow> 'n executor \<Rightarrow> 'n host \<Rightarrow> 'n ASTNode \<Rightarrow> 'n Interpreter \<Rightarrow> ('n, 'n SoorjValue) result" where
  "evaluate_body eval exec H (NumberLiteral x) s = (Inr (NumberV x), s)"
| "evaluate_body eval exec H (StringLiteral t) s = (Inr (StringV t), s)"
| "evaluate_body eval exec H (BooleanLiteral b) s = (Inr (BooleanV b), s)"
| "evaluate_body eval exec H NullLiteral s = (Inr NullV, s)"
| "evaluate_body eval exec H (Identifier name) s = (Environment_get (environment s) name, s)"
| "evaluate_body eval exec H (Assignment target e) s =
     and_then (eval e s) (\<lambda>v s1.
       case Environment_assign (environment s1) target v of
         Inr env \<Rightarrow> (Inr v, s1\<lparr>environment := env\<rparr>)
       | Inl (RuntimeError m) \<Rightarrow>
           (Inr v, s1\<lparr>environment := Environment_define (environment s1) target v\<rparr>)
       | Inl e \<Rightarrow> (Inl e, s1))"
| "evaluate_body eval exec H (BinaryOp l operator r) s = evaluate_binary_op eval H l operator r s"
| "evaluate_body eval exec H (UnaryOp operator e) s = evaluate_unary_op eval H operator e s"
| "evaluate_body eval exec H (FunctionCall name args) s = evaluate_function_call eval exec H name args s"
| "evaluate_body eval exec H node s = (Inl (unknown_node_type node), s)"

text \<open>
  The body of \<open>Interpreter.execute\<close>. The number \<open>n\<close> is the fuel left for the inner
  calls; the \<open>while\<close> loop may evaluate its condition \<open>n\<close> times.
\<close>

fun execute_body ::
  "nat \<Rightarrow> 'n evaluator \<Rightarrow> 'n executor \<Rightarrow> 'n host \<Rightarrow> 'n ASTNode \<Rightarrow> 'n Interpreter
    \<Rightarrow> ('n, 'n SoorjValue option) result" where
  "execute_body n eval exec H (Program statements) s =
     and_then (execute_all exec statements s) (\<lambda>u s1. (Inr None, s1))"
| "execute_body n eval exec H (ExpressionStatement e) s =
     and_then (eval e s) (\<lambda>v s1. (Inr (Some v), s1))"
| "execute_body n eval exec H (IfStatement c then_branch else_branch) s =
     and_then (eval c s) (\<lambda>condition s1.
       if is_truthy H condition
       then and_then (execute_all exec then_branch s1) (\<lambda>u s2. (Inr None, s2))
       else
         (case else_branch of
            Some stmts \<Rightarrow> and_then (execute_all exec stmts s1) (\<lambda>u s2. (Inr None, s2))
          | None \<Rightarrow> (Inr None, s1)))"
| "execute_body n eval exec H (WhileStatement c body) s =
     and_then (execute_while n eval exec H c body s) (\<lambda>u s1. (Inr None, s1))"
| "execute_body n eval exec H (ReturnStatement None) s = (Inl (ReturnValue NullV), s)"
| "execute_body n eval exec H (ReturnStatement (Some e)) s =
     and_then (eval e s) (\<lambda>v s1. (Inl (ReturnValue v), s1))"
| "execute_body n eval exec H (FunctionDeclaration name parameters body) s =
     (Inr None,
      s\<lparr>environment :=
          Environment_define (environment s) name
            (FunctionV (next_id s) (SoorjFunction name parameters body)),
        next_id := Suc (next_id s)\<rparr>)"
| "execute_body n eval exec H node s =
     and_then (eval node s) (\<lambda>v s1. (Inr (Some v), s1))"

text \<open>Closing the recursion, by recursion on the fuel.\<close>

primrec evaluate_execute :: "nat \<Rightarrow> 'n host \<Rightarrow> 'n evaluator \<times> 'n executor" where
  "evaluate_execute 0 H = ((\<lambda>node s. (Inl OutOfFuel, s)), (\<lambda>node s. (Inl OutOfFuel, s)))"
| "evaluate_execute (Suc n) H =
     (evaluate_body (fst (evaluate_execute n H)) (snd (evaluate_execute n H)) H,
      execute_body n (fst (evaluate_execute n H)) (snd (evaluate_execute n H)) H)"

definition evaluate :: "nat \<Rightarrow> 'n host \<Rightarrow> 'n evaluator" where
  "evaluate n H = fst (evaluate_execute n H)"

definition execute :: "nat \<Rightarrow> 'n host \<Rightarrow> 'n executor" where
  "execute n H = snd (evaluate_execute n H)"

text \<open>
  \<open>Interpreter.interpret\<close>, on \<open>program.statements\<close>: a RuntimeError is caught and
  printed; any other exception leaves \<open>interpret\<close>.
\<close>

definition Interpreter_interpret :: "nat \<Rightarrow> 'n host \<Rightarrow> 'n ASTNode list \<Rightarrow> 'n Interpreter \<Rightarrow> ('n, unit) result" where
  "Interpreter_interpret fuel H statements s =
     (case execute_all (execute fuel H) statements s of
        (Inl (RuntimeError m), s') \<Rightarrow> (Inr (), s'\<lparr>printed := printed s' @ [''Runtime error: '' @ m]\<rparr>)
      | (Inl e, s') \<Rightarrow> (Inl e, s')
      | (Inr u, s') \<Rightarrow> (Inr (), s'))"

subsection \<open>A host with exact arithmetic, for running examples\<close>

text \<open>
  The theorems below hold for every host. To run a program one host is needed: this one
  has the rationals as its numbers, with exact arithmetic. It agrees with the doubles of
  the real host on the small whole numbers the examples use. A number that is whole is
  rendered as the real host renders such a double (\<open>5.0\<close>), any other as a fraction.
\<close>

definition str_int :: "int \<Rightarrow> string" where
  "str_int i = (if i < 0 then ''-'' @ str_nat (nat (- i)) else str_nat (nat i))"

definition exact_str :: "rat \<Rightarrow> string" where
  "exact_str x =
     (case quotient_of x of
        (p, q) \<Rightarrow> if q = 1 then str_int p @ ''.0'' else str_int p @ ''/'' @ str_int q)"

definition digit_value :: "char \<Rightarrow> nat option" where
  "digit_value c =
     (if (48::nat) \<le> of_char c \<and> (of_char c :: nat) \<le> 57 then Some (of_char c - 48) else None)"

definition digits_value :: "string \<Rightarrow> nat option" where
  "digits_value t = map_option (foldl (\<lambda>acc d. 10 * acc + d) 0) (those (map digit_value t))"

text \<open>Decimal numerals \<open>12\<close>, \<open>12.\<close> and \<open>12.5\<close>; every other string is refused.\<close>

definition exact_float :: "string \<Rightarrow> rat option" where
  "exact_float t =
     (let ip = takeWhile (\<lambda>c. c \<noteq> CHR ''.'') t; rest = dropWhile (\<lambda>c. c \<noteq> CHR ''.'') t
      in if ip = [] then None
         else
           (case rest of
              [] \<Rightarrow> map_option of_nat (digits_value ip)
            | dot # fp \<Rightarrow>
                (case (digits_value ip, digits_value fp) of
                   (Some i, Some f) \<Rightarrow> Some (of_nat i + of_nat f / 10 ^ length fp)
                 | _ \<Rightarrow> None)))"

definition exact_host :: "rat host" where
  "exact_host =
     \<lparr>h_add = (+), h_sub = (-), h_mul = (*), h_truediv = (/),
      h_mod = (\<lambda>a b. a - of_int \<lfloor>a / b\<rfloor> * b),
      h_neg = uminus, h_eq = (=), h_lt = (<), h_gt = (>), h_le = (\<le>), h_ge = (\<ge>),
      h_int = of_int, h_str = exact_str, h_float = exact_float,
      h_str_object = (\<lambda>i. ''<function object '' @ str_nat i @ ''>'')\<rparr>"

text \<open>Three Armenian identifiers for the examples: U+0586, U+0563 and U+0561.\<close>

definition nm_f :: string where
  "nm_f = [CHR 0xD6, CHR 0x86]"

definition nm_g :: string where
  "nm_g = [CHR 0xD5, CHR 0xA3]"

definition nm_a :: string where
  "nm_a = [CHR 0xD5, CHR 0xA1]"

subsection \<open>A host that keeps ints apart from doubles\<close>







subsection \<open>Observing an environment\<close>

text \<open>
  The dictionaries along the parent chain of an environment, the environment's own
  first and the root's last.
\<close>

fun chain :: "'n Environment \<Rightarrow> (string \<rightharpoonup> 'n SoorjValue) list" where
  "chain (Environment vars p) = vars # (case p of None \<Rightarrow> [] | Some q \<Rightarrow> chain q)"

text \<open>The number of environments on the chain of the current environment.\<close>

definition depth :: "'n Interpreter \<Rightarrow> nat" where
  "depth s = length (chain (environment s))"

subsection \<open>Example programs\<close>

text \<open>
  Two declarations: a function (U+0586) that returns \<open>true\<close>, and a function (U+0563)
  that prints \<open>1\<close> and returns \<open>true\<close>.
\<close>

definition declarations_f_g :: "rat ASTNode list" where
  "declarations_f_g =
     [FunctionDeclaration nm_f [] [ReturnStatement (Some (BooleanLiteral True))],
      FunctionDeclaration nm_g []
        [ExpressionStatement (FunctionCall name_gre [StringLiteral ''1'']),
         ReturnStatement (Some (BooleanLiteral True))]]"

text \<open>The state after the two declarations have been executed.\<close>

definition state_f_g :: "rat Interpreter" where
  "state_f_g = snd (execute_all (execute (Suc 0) exact_host) declarations_f_g Interpreter_init)"

text \<open>
  A function (U+0563) with one parameter (U+0586) whose body returns the variable U+0561,
  which is free in it.
\<close>

definition function_g_free_a :: "rat callable" where
  "function_g_free_a = SoorjFunction nm_g [nm_f] [ReturnStatement (Some (Identifier nm_a))]"

text \<open>
  A state inside a call: the root environment binds that function and binds U+0561 to
  the string \<open>1\<close>; the current environment, a child of the root, binds U+0561 to \<open>2\<close>.
\<close>

definition state_in_call :: "rat Interpreter" where
  "state_in_call =
     \<lparr>environment =
        Environment [nm_a \<mapsto> StringV ''2'']
          (Some (Environment [nm_g \<mapsto> FunctionV 3 function_g_free_a, nm_a \<mapsto> StringV ''1''] None)),
      printed = [], next_id = 4\<rparr>"

text \<open>A state whose current environment is empty and whose root binds U+0561.\<close>

definition state_nested :: "rat Interpreter" where
  "state_nested =
     \<lparr>environment = Environment Map.empty (Some (Environment [nm_a \<mapsto> StringV ''1''] None)),
      printed = [], next_id = 3\<rparr>"

section \<open>Soorj: the scanner (lexer.py)\<close>

text \<open>
  The scanner works on the characters of a Python string: a source text is the list of
  its Unicode code points. \<open>str.isdigit\<close> is the host's (it accepts the ASCII digits and
  the other Unicode digits) and is a parameter of the scanner.
\<close>

datatype TokenType =
    NUMBER | STRING | IDENTIFIER
  | IF | ELSE | WHILE | FUNCTION | RETURN | TRUE | FALSE | NULL | AND | OR | NOT
  | PLUS | MINUS | MULTIPLY | DIVIDE | MODULO | ASSIGN | EQUALS | NOT_EQUALS
  | LESS_THAN | GREATER_THAN | LESS_EQUAL | GREATER_EQUAL
  | LEFT_PAREN | RIGHT_PAREN | LEFT_BRACE | RIGHT_BRACE | COMMA
  | NEWLINE | EOF

text \<open>\<open>Token(type, value, line, column)\<close>.\<close>

datatype Token = Token TokenType "nat list" nat nat

text \<open>The two places where the scanner raises ValueError, with the character and its place.\<close>

datatype lexical_error =
    InvalidStringCharacter nat nat nat
  | UnknownCharacter nat nat nat

record Lexer =
  source :: "nat list"
  position :: nat
  line :: nat
  column :: nat
  tokens :: "Token list"

definition Lexer_init :: "nat list \<Rightarrow> Lexer" where
  "Lexer_init src = \<lparr>source = src, position = 0, line = 1, column = 1, tokens = []\<rparr>"

definition Lexer_keywords :: "nat list \<rightharpoonup> TokenType" where
  "Lexer_keywords =
     [[0x0565, 0x0569, 0x0565] \<mapsto> IF,
      [0x0570, 0x057A] \<mapsto> ELSE,
      [0x0574, 0x056B, 0x0576, 0x0579, 0x0587] \<mapsto> WHILE,
      [0x0563, 0x0578, 0x0580, 0x056E] \<mapsto> FUNCTION,
      [0x057F, 0x0578, 0x0582, 0x0580] \<mapsto> RETURN,
      [0x0561, 0x0575, 0x0578] \<mapsto> TRUE,
      [0x0578, 0x0579] \<mapsto> FALSE,
      [0x0570, 0x0565, 0x0579] \<mapsto> NULL,
      [0x0587] \<mapsto> AND,
      [0x056F, 0x0561, 0x0574] \<mapsto> OR,
      [0x0579, 0x056B] \<mapsto> NOT]"

text \<open>The characters \<open>+ - * / % ( ) { } ,\<close>.\<close>

definition single_chars :: "nat \<rightharpoonup> TokenType" where
  "single_chars =
     [43 \<mapsto> PLUS, 45 \<mapsto> MINUS, 42 \<mapsto> MULTIPLY, 47 \<mapsto> DIVIDE, 37 \<mapsto> MODULO,
      40 \<mapsto> LEFT_PAREN, 41 \<mapsto> RIGHT_PAREN, 123 \<mapsto> LEFT_BRACE, 125 \<mapsto> RIGHT_BRACE,
      44 \<mapsto> COMMA]"

text \<open>The pairs \<open>== != <= >=\<close>.\<close>

definition two_chars :: "nat list \<rightharpoonup> TokenType" where
  "two_chars =
     [[61, 61] \<mapsto> EQUALS, [33, 61] \<mapsto> NOT_EQUALS, [60, 61] \<mapsto> LESS_EQUAL,
      [62, 61] \<mapsto> GREATER_EQUAL]"

definition current_char :: "Lexer \<Rightarrow> nat option" where
  "current_char L =
     (if position L \<ge> length (source L) then None else Some (source L ! position L))"

definition peek_char :: "Lexer \<Rightarrow> nat \<Rightarrow> nat option" where
  "peek_char L offset =
     (let peek_pos = position L + offset
      in if peek_pos \<ge> length (source L) then None else Some (source L ! peek_pos))"

definition advance :: "Lexer \<Rightarrow> Lexer" where
  "advance L =
     (if position L < length (source L)
      then (if source L ! position L = 10
            then L\<lparr>position := position L + 1, line := line L + 1, column := 1\<rparr>
            else L\<lparr>position := position L + 1, column := column L + 1\<rparr>)
      else L)"

text \<open>Space, tab and carriage return are skipped.\<close>

function skip_whitespace :: "Lexer \<Rightarrow> Lexer" where
  "skip_whitespace L =
     (case current_char L of
        None \<Rightarrow> L
      | Some c \<Rightarrow> if c \<in> {32, 9, 13} then skip_whitespace (advance L) else L)"
  by pat_completeness auto
termination
  by (relation "measure (\<lambda>L. length (source L) - position L)")
     (auto simp: current_char_def advance_def split: if_splits)

definition is_armenian_char :: "nat \<Rightarrow> bool" where
  "is_armenian_char code_point =
     ((0x0530 \<le> code_point \<and> code_point \<le> 0x058F) \<or> (0xFB13 \<le> code_point \<and> code_point \<le> 0xFB17))"

definition is_identifier_char :: "nat \<Rightarrow> bool" where
  "is_identifier_char c = is_armenian_char c"

text \<open>
  Armenian characters, digits, the ASCII characters of the string
  \<open>' \t\n\r.,!?:;-()[]{}"\'/\\'\<close>, and the Armenian punctuation marks.
\<close>

definition is_valid_string_char :: "(nat \<Rightarrow> bool) \<Rightarrow> nat \<Rightarrow> bool" where
  "is_valid_string_char isdigit c =
     (is_armenian_char c \<or> isdigit c
      \<or> c \<in> set [32, 9, 10, 13, 46, 44, 33, 63, 58, 59, 45, 40, 41, 91, 93, 123, 125, 34, 39, 47, 92]
      \<or> c \<in> set [0x055B, 0x055C, 0x055D, 0x055E, 0x055F, 0x0589, 0x055A])"

text \<open>
  The loop of \<open>read_number\<close>: while the current character is a digit or a full stop, it
  is appended to the lexeme.
\<close>

function read_number_loop :: "(nat \<Rightarrow> bool) \<Rightarrow> Lexer \<Rightarrow> nat list \<Rightarrow> nat list \<times> Lexer" where
  "read_number_loop isdigit L number_str =
     (case current_char L of
        None \<Rightarrow> (number_str, L)
      | Some c \<Rightarrow>
          if isdigit c \<or> c = 46 then read_number_loop isdigit (advance L) (number_str @ [c])
          else (number_str, L))"
  by pat_completeness auto
termination
  by (relation "measure (\<lambda>(isdigit, L, number_str). length (source L) - position L)")
     (auto simp: current_char_def advance_def split: if_splits)

definition read_number :: "(nat \<Rightarrow> bool) \<Rightarrow> Lexer \<Rightarrow> Token \<times> Lexer" where
  "read_number isdigit L =
     (let start_column = column L
      in case read_number_loop isdigit L [] of
           (number_str, L') \<Rightarrow> (Token NUMBER number_str (line L') start_column, L'))"

text \<open>What an escape \<open>\c\<close> adds to a string: nothing at the end of the input.\<close>

definition escaped :: "nat option \<Rightarrow> nat option \<Rightarrow> nat list" where
  "escaped quote_char next_char =
     (case next_char of
        None \<Rightarrow> []
      | Some c \<Rightarrow>
          if c = 110 then [10]
          else if c = 116 then [9]
          else if c = 114 then [13]
          else if c = 92 then [92]
          else if Some c = quote_char then [c]
          else [c])"

function read_string_loop ::
  "(nat \<Rightarrow> bool) \<Rightarrow> nat option \<Rightarrow> Lexer \<Rightarrow> nat list \<Rightarrow> lexical_error + nat list \<times> Lexer" where
  "read_string_loop isdigit quote_char L string_value =
     (case current_char L of
        None \<Rightarrow> Inr (string_value, L)
      | Some c \<Rightarrow>
          if Some c = quote_char then Inr (string_value, L)
          else if c = 92 then
            read_string_loop isdigit quote_char (advance (advance L))
              (string_value @ escaped quote_char (current_char (advance L)))
          else if \<not> is_valid_string_char isdigit c
            then Inl (InvalidStringCharacter c (line L) (column L))
          else read_string_loop isdigit quote_char (advance L) (string_value @ [c]))"
  by pat_completeness auto
termination
  by (relation "measure (\<lambda>(isdigit, q, L, v). length (source L) - position L)")
     (auto simp: current_char_def advance_def split: if_splits)

definition read_string :: "(nat \<Rightarrow> bool) \<Rightarrow> Lexer \<Rightarrow> lexical_error + Token \<times> Lexer" where
  "read_string isdigit L =
     (let start_column = column L; quote_char = current_char L
      in case read_string_loop isdigit quote_char (advance L) [] of
           Inl e \<Rightarrow> Inl e
         | Inr (string_value, L1) \<Rightarrow>
             (let L2 = (if current_char L1 = quote_char then advance L1 else L1)
              in Inr (Token STRING string_value (line L2) start_column, L2)))"

function read_identifier_loop :: "Lexer \<Rightarrow> nat list \<Rightarrow> nat list \<times> Lexer" where
  "read_identifier_loop L identifier =
     (case current_char L of
        None \<Rightarrow> (identifier, L)
      | Some c \<Rightarrow>
          if is_identifier_char c then read_identifier_loop (advance L) (identifier @ [c])
          else (identifier, L))"
  by pat_completeness auto
termination
  by (relation "measure (\<lambda>(L, identifier). length (source L) - position L)")
     (auto simp: current_char_def advance_def split: if_splits)

definition read_identifier :: "Lexer \<Rightarrow> Token \<times> Lexer" where
  "read_identifier L =
     (let start_column = column L
      in case read_identifier_loop L [] of
           (identifier, L') \<Rightarrow>
             (Token (case Lexer_keywords identifier of Some t \<Rightarrow> t | None \<Rightarrow> IDENTIFIER)
                identifier (line L') start_column, L'))"

text \<open>A comment: everything up to the end of the line.\<close>

function skip_comment :: "Lexer \<Rightarrow> Lexer" where
  "skip_comment L =
     (case current_char L of
        None \<Rightarrow> L
      | Some c \<Rightarrow> if c \<noteq> 10 then skip_comment (advance L) else L)"
  by pat_completeness auto
termination
  by (relation "measure (\<lambda>L. length (source L) - position L)")
     (auto simp: current_char_def advance_def split: if_splits)

definition append_token :: "Token \<Rightarrow> Lexer \<Rightarrow> Lexer" where
  "append_token t L = L\<lparr>tokens := tokens L @ [t]\<rparr>"


text \<open>
  The last branches of the loop of \<open>tokenize\<close>, from the two-character operators on:
  the token is appended and the scanner advances past it, or the character is unknown.
\<close>

definition scan_operator :: "Lexer \<Rightarrow> nat \<Rightarrow> lexical_error + Lexer" where
  "scan_operator L char =
     (let two_char = char # (case peek_char L 1 of None \<Rightarrow> [] | Some next_char \<Rightarrow> [next_char])
      in case (if char \<in> {61, 33, 60, 62} then two_chars two_char else None) of
           Some t \<Rightarrow> Inr (advance (advance (append_token (Token t two_char (line L) (column L)) L)))
         | None \<Rightarrow>
             (case single_chars char of
                Some t \<Rightarrow> Inr (advance (append_token (Token t [char] (line L) (column L)) L))
              | None \<Rightarrow>
                  if char = 61 then Inr (advance (append_token (Token ASSIGN [char] (line L) (column L)) L))
                  else if char = 60 then Inr (advance (append_token (Token LESS_THAN [char] (line L) (column L)) L))
                  else if char = 62 then Inr (advance (append_token (Token GREATER_THAN [char] (line L) (column L)) L))
                  else Inl (UnknownCharacter char (line L) (column L))))"

declare skip_whitespace.simps [simp del]
declare skip_comment.simps [simp del]
declare read_number_loop.simps [simp del]
declare read_identifier_loop.simps [simp del]
declare read_string_loop.simps [simp del]

text \<open>Every part of the scanner keeps the source and never moves backwards.\<close>

definition moves_on :: "Lexer \<Rightarrow> Lexer \<Rightarrow> bool" where
  "moves_on L L' = (source L' = source L \<and> position L \<le> position L')"

lemma moves_on_refl: "moves_on L L"
  by (simp add: moves_on_def)

lemma moves_on_trans: "moves_on L L1 \<Longrightarrow> moves_on L1 L2 \<Longrightarrow> moves_on L L2"
  by (auto simp: moves_on_def)

lemma moves_on_advance: "moves_on L (advance L)"
  by (simp add: moves_on_def advance_def)

lemma moves_on_append_token: "moves_on L (append_token t L)"
  by (simp add: moves_on_def append_token_def)

lemma advance_steps:
  "current_char L = Some c \<Longrightarrow> source (advance L) = source L \<and> position (advance L) = Suc (position L)"
  by (auto simp: current_char_def advance_def split: if_splits)

lemma current_char_in_range: "current_char L = Some c \<Longrightarrow> position L < length (source L)"
  by (auto simp: current_char_def split: if_splits)

lemma moves_on_skip_whitespace: "moves_on L (skip_whitespace L)"
proof (induction L rule: skip_whitespace.induct)
  case (1 L)
  show ?case
  proof (cases "current_char L")
    case None
    then show ?thesis by (simp add: skip_whitespace.simps[of L] moves_on_refl)
  next
    case (Some c)
    show ?thesis
    proof (cases "c \<in> {32, 9, 13}")
      case True
      with Some "1.IH" have "moves_on (advance L) (skip_whitespace (advance L))" by simp
      with moves_on_advance[of L] have "moves_on L (skip_whitespace (advance L))"
        by (rule moves_on_trans)
      with Some True show ?thesis by (simp add: skip_whitespace.simps[of L])
    next
      case False
      with Some show ?thesis by (simp add: skip_whitespace.simps[of L] moves_on_refl)
    qed
  qed
qed

lemma moves_on_skip_comment: "moves_on L (skip_comment L)"
proof (induction L rule: skip_comment.induct)
  case (1 L)
  show ?case
  proof (cases "current_char L")
    case None
    then show ?thesis by (simp add: skip_comment.simps[of L] moves_on_refl)
  next
    case (Some c)
    show ?thesis
    proof (cases "c \<noteq> 10")
      case True
      with Some "1.IH" have "moves_on (advance L) (skip_comment (advance L))" by simp
      with moves_on_advance[of L] have "moves_on L (skip_comment (advance L))"
        by (rule moves_on_trans)
      with Some True show ?thesis by (simp add: skip_comment.simps[of L])
    next
      case False
      with Some show ?thesis by (simp add: skip_comment.simps[of L] moves_on_refl)
    qed
  qed
qed

lemma moves_on_read_number_loop: "moves_on L (snd (read_number_loop isdigit L acc))"
proof (induction isdigit L acc rule: read_number_loop.induct)
  case (1 isdigit L number_str)
  show ?case
  proof (cases "current_char L")
    case None
    then show ?thesis by (simp add: read_number_loop.simps[of isdigit L] moves_on_refl)
  next
    case (Some c)
    show ?thesis
    proof (cases "isdigit c \<or> c = 46")
      case True
      with Some "1.IH"
      have "moves_on (advance L) (snd (read_number_loop isdigit (advance L) (number_str @ [c])))"
        by simp
      with moves_on_advance[of L]
      have "moves_on L (snd (read_number_loop isdigit (advance L) (number_str @ [c])))"
        by (rule moves_on_trans)
      with Some True show ?thesis by (simp add: read_number_loop.simps[of isdigit L])
    next
      case False
      with Some show ?thesis by (simp add: read_number_loop.simps[of isdigit L] moves_on_refl)
    qed
  qed
qed

lemma moves_on_read_identifier_loop: "moves_on L (snd (read_identifier_loop L acc))"
proof (induction L acc rule: read_identifier_loop.induct)
  case (1 L ident)
  show ?case
  proof (cases "current_char L")
    case None
    then show ?thesis by (simp add: read_identifier_loop.simps[of L] moves_on_refl)
  next
    case (Some c)
    show ?thesis
    proof (cases "is_identifier_char c")
      case True
      with Some "1.IH"
      have "moves_on (advance L) (snd (read_identifier_loop (advance L) (ident @ [c])))"
        by simp
      with moves_on_advance[of L]
      have "moves_on L (snd (read_identifier_loop (advance L) (ident @ [c])))"
        by (rule moves_on_trans)
      with Some True show ?thesis by (simp add: read_identifier_loop.simps[of L])
    next
      case False
      with Some show ?thesis by (simp add: read_identifier_loop.simps[of L] moves_on_refl)
    qed
  qed
qed

lemma moves_on_read_string_loop:
  "read_string_loop isdigit q L acc = Inr (v, L') \<Longrightarrow> moves_on L L'"
proof (induction isdigit q L acc arbitrary: v L' rule: read_string_loop.induct)
  case (1 isdigit quote_char L string_value)
  show ?case
  proof (cases "current_char L")
    case None
    with "1.prems" show ?thesis by (simp add: read_string_loop.simps[of isdigit quote_char L] moves_on_refl)
  next
    case (Some c)
    show ?thesis
    proof (cases "Some c = quote_char")
      case True
      then have "quote_char = Some c" by simp
      with Some "1.prems" show ?thesis
        by (simp add: read_string_loop.simps[of isdigit "Some c" L] moves_on_refl)
    next
      case notq: False
      show ?thesis
      proof (cases "c = 92")
        case True
        with Some notq "1.prems"
        have "read_string_loop isdigit quote_char (advance (advance L))
                (string_value @ escaped quote_char (current_char (advance L))) = Inr (v, L')"
          by (simp add: read_string_loop.simps[of isdigit quote_char L])
        with "1.IH"(1)[OF Some notq True] have "moves_on (advance (advance L)) L'" by simp
        with moves_on_trans[OF moves_on_advance[of L] moves_on_advance[of "advance L"]]
        show ?thesis by (rule moves_on_trans)
      next
        case False
        with Some notq "1.prems" have valid: "\<not> \<not> is_valid_string_char isdigit c"
          and rec: "read_string_loop isdigit quote_char (advance L) (string_value @ [c]) = Inr (v, L')"
          by (auto simp: read_string_loop.simps[of isdigit quote_char L] split: if_splits)
        from "1.IH"(2)[OF Some notq False valid rec] have "moves_on (advance L) L'" .
        with moves_on_advance[of L] show ?thesis by (rule moves_on_trans)
      qed
    qed
  qed
qed

text \<open>Each branch of the loop of \<open>tokenize\<close> consumes at least one character.\<close>

definition consumes :: "Lexer \<Rightarrow> Lexer \<Rightarrow> bool" where
  "consumes L L' = (source L' = source L \<and> position L < position L')"

lemma consumes_advance_then:
  "current_char L = Some c \<Longrightarrow> moves_on (advance L) L' \<Longrightarrow> consumes L L'"
  by (auto simp: consumes_def moves_on_def dest: advance_steps)

lemma consumes_skip_comment:
  "current_char L = Some c \<Longrightarrow> c \<noteq> 10 \<Longrightarrow> consumes L (skip_comment L)"
  by (simp add: skip_comment.simps[of L] consumes_advance_then moves_on_skip_comment)

lemma consumes_read_number:
  "current_char L = Some c \<Longrightarrow> isdigit c \<Longrightarrow> read_number isdigit L = (t, L') \<Longrightarrow> consumes L L'"
  using moves_on_read_number_loop[of "advance L" isdigit "[c]"]
  by (auto simp: read_number_def read_number_loop.simps[of isdigit L] split: prod.splits
      intro: consumes_advance_then)

lemma consumes_read_identifier:
  "current_char L = Some c \<Longrightarrow> is_armenian_char c \<Longrightarrow> read_identifier L = (t, L') \<Longrightarrow> consumes L L'"
  using moves_on_read_identifier_loop[of "advance L" "[c]"]
  by (auto simp: read_identifier_def read_identifier_loop.simps[of L] is_identifier_char_def
      split: prod.splits intro: consumes_advance_then)

lemma consumes_read_string:
  assumes "current_char L = Some c" and "read_string isdigit L = Inr (t, L')"
  shows "consumes L L'"
proof -
  from assms(2) obtain v L1 where
    loop: "read_string_loop isdigit (current_char L) (advance L) [] = Inr (v, L1)"
    and L': "L' = (if current_char L1 = current_char L then advance L1 else L1)"
    by (auto simp: read_string_def Let_def split: sum.splits)
  from loop have "moves_on (advance L) L1" by (rule moves_on_read_string_loop)
  with L' have "moves_on (advance L) L'"
    by (auto intro: moves_on_trans[OF _ moves_on_advance])
  with assms(1) show ?thesis by (rule consumes_advance_then)
qed

lemma consumes_scan_operator:
  "current_char L = Some c \<Longrightarrow> scan_operator L char = Inr L' \<Longrightarrow> consumes L L'"
  by (auto simp: scan_operator_def Let_def consumes_def append_token_def advance_def current_char_def
      split: option.splits if_splits)

lemma consumes_measure:
  "position L0 < length (source L0) \<Longrightarrow> moves_on L0 L \<Longrightarrow> current_char L = Some c \<Longrightarrow> consumes L L'
   \<Longrightarrow> length (source L') - position L' < length (source L0) - position L0"
  by (auto simp: consumes_def moves_on_def dest: current_char_in_range)

lemma consumes_append_token: "consumes L L' \<Longrightarrow> consumes L (append_token t L')"
  by (simp add: consumes_def append_token_def)

text \<open>
  The loop of \<open>Lexer.tokenize\<close>. It ends with the tokens followed by the end-of-input
  token, or with the first lexical error.
\<close>

function tokenize_loop :: "(nat \<Rightarrow> bool) \<Rightarrow> Lexer \<Rightarrow> lexical_error + Token list" where
  "tokenize_loop isdigit L0 =
     (if position L0 < length (source L0) then
        (let L = skip_whitespace L0
         in case current_char L of
              None \<Rightarrow> Inr (tokens L @ [Token EOF [] (line L) (column L)])
            | Some char \<Rightarrow>
                if char = 10 then
                  tokenize_loop isdigit (advance (append_token (Token NEWLINE [char] (line L) (column L)) L))
                else if char = 35 then tokenize_loop isdigit (skip_comment L)
                else if isdigit char then
                  (case read_number isdigit L of (t, L') \<Rightarrow> tokenize_loop isdigit (append_token t L'))
                else if char = 34 \<or> char = 39 then
                  (case read_string isdigit L of
                     Inl e \<Rightarrow> Inl e
                   | Inr (t, L') \<Rightarrow> tokenize_loop isdigit (append_token t L'))
                else if is_armenian_char char then
                  (case read_identifier L of (t, L') \<Rightarrow> tokenize_loop isdigit (append_token t L'))
                else
                  (case scan_operator L char of
                     Inl e \<Rightarrow> Inl e
                   | Inr L' \<Rightarrow> tokenize_loop isdigit L'))
      else Inr (tokens L0 @ [Token EOF [] (line L0) (column L0)]))"
  by pat_completeness auto
termination
proof (relation "measure (\<lambda>(isdigit, L). length (source L) - position L)")
  show "wf (measure (\<lambda>(isdigit, L). length (source L) - position L))" by simp
next
  fix isdigit L0 L char
  assume a: "position L0 < length (source L0)" "L = skip_whitespace L0" "current_char L = Some char"
    "char = 10"
  have "consumes L (advance (append_token (Token NEWLINE [char] (line L) (column L)) L))"
    using a(3) by (auto simp: consumes_def append_token_def advance_def current_char_def split: if_splits)
  with a moves_on_skip_whitespace[of L0]
  show "((isdigit, advance (append_token (Token NEWLINE [char] (line L) (column L)) L)), isdigit, L0)
          \<in> measure (\<lambda>(isdigit, L). length (source L) - position L)"
    by (auto intro: consumes_measure)
next
  fix isdigit L0 L char
  assume a: "position L0 < length (source L0)" "L = skip_whitespace L0" "current_char L = Some char"
    "char \<noteq> 10" "char = 35"
  with moves_on_skip_whitespace[of L0] consumes_skip_comment[of L char]
  show "((isdigit, skip_comment L), isdigit, L0) \<in> measure (\<lambda>(isdigit, L). length (source L) - position L)"
    by (auto intro: consumes_measure)
next
  fix isdigit L0 L char x y
  assume a: "position L0 < length (source L0)" "L = skip_whitespace L0" "current_char L = Some char"
    "char \<noteq> 10" "char \<noteq> 35" "isdigit char" "(x, y) = read_number isdigit L"
  from a(3,6) a(7)[symmetric] have "consumes L (append_token x y)"
    by (intro consumes_append_token consumes_read_number[of L char isdigit x y])
  with a moves_on_skip_whitespace[of L0]
  show "((isdigit, append_token x y), isdigit, L0) \<in> measure (\<lambda>(isdigit, L). length (source L) - position L)"
    by (auto intro: consumes_measure)
next
  fix isdigit L0 L char x2 x y
  assume a: "position L0 < length (source L0)" "L = skip_whitespace L0" "current_char L = Some char"
    "read_string isdigit L = Inr x2" "(x, y) = x2"
  from a(3,4) a(5)[symmetric] have "consumes L (append_token x y)"
    by (intro consumes_append_token consumes_read_string[of L char isdigit x y]) simp_all
  with a moves_on_skip_whitespace[of L0]
  show "((isdigit, append_token x y), isdigit, L0) \<in> measure (\<lambda>(isdigit, L). length (source L) - position L)"
    by (auto intro: consumes_measure)
next
  fix isdigit L0 L char x y
  assume a: "position L0 < length (source L0)" "L = skip_whitespace L0" "current_char L = Some char"
    "is_armenian_char char" "(x, y) = read_identifier L"
  from a(3,4) a(5)[symmetric] have "consumes L (append_token x y)"
    by (intro consumes_append_token consumes_read_identifier[of L char x y])
  with a moves_on_skip_whitespace[of L0]
  show "((isdigit, append_token x y), isdigit, L0) \<in> measure (\<lambda>(isdigit, L). length (source L) - position L)"
    by (auto intro: consumes_measure)
next
  fix isdigit L0 L char L'
  assume a: "position L0 < length (source L0)" "L = skip_whitespace L0" "current_char L = Some char"
    "scan_operator L char = Inr L'"
  from a(3,4) have "consumes L L'"
    by (rule consumes_scan_operator)
  with a moves_on_skip_whitespace[of L0]
  show "((isdigit, L'), isdigit, L0) \<in> measure (\<lambda>(isdigit, L). length (source L) - position L)"
    by (auto intro: consumes_measure)
qed

declare tokenize_loop.simps [simp del]

text \<open>\<open>Lexer(source).tokenize()\<close>.\<close>

definition tokenize :: "(nat \<Rightarrow> bool) \<Rightarrow> nat list \<Rightarrow> lexical_error + Token list" where
  "tokenize isdigit src = tokenize_loop isdigit (Lexer_init src)"

section \<open>Properties of the evaluator\<close>

subsection \<open>Unfolding one level of fuel\<close>

lemma evaluate_0: "evaluate 0 H node s = (Inl OutOfFuel, s)"
  by (simp add: evaluate_def)

lemma evaluate_Suc: "evaluate (Suc n) H = evaluate_body (evaluate n H) (execute n H) H"
  by (simp add: evaluate_def execute_def)

lemma execute_0: "execute 0 H node s = (Inl OutOfFuel, s)"
  by (simp add: execute_def)

lemma execute_Suc: "execute (Suc n) H = execute_body n (evaluate n H) (execute n H) H"
  by (simp add: evaluate_def execute_def)

lemma evaluate_Suc_app: "evaluate (Suc n) H node s = evaluate_body (evaluate n H) (execute n H) H node s"
  by (simp add: evaluate_Suc)

lemma execute_Suc_app: "execute (Suc n) H node s = execute_body n (evaluate n H) (execute n H) H node s"
  by (simp add: execute_Suc)

lemmas run_simps =
  eval_nat_numeral One_nat_def evaluate_Suc_app execute_Suc_app evaluate_0 execute_0
  evaluate_function_call_def evaluate_binary_op_def evaluate_unary_op_def SoorjFunction_call_def
  push_environment_def restore_environment_def builtin_gre_def Interpreter_init_def
  nm_f_def nm_g_def nm_a_def name_gre_def name_tiv_def name_bar_def

lemma evaluate_literals:
  "evaluate (Suc n) H (NumberLiteral x) s = (Inr (NumberV x), s)"
  "evaluate (Suc n) H (StringLiteral t) s = (Inr (StringV t), s)"
  "evaluate (Suc n) H (BooleanLiteral b) s = (Inr (BooleanV b), s)"
  "evaluate (Suc n) H NullLiteral s = (Inr NullV, s)"
  by (simp_all add: evaluate_Suc)

lemma evaluate_BinaryOp:
  "evaluate (Suc n) H (BinaryOp l operator r) s =
     and_then (evaluate n H l s) (\<lambda>left s1.
     and_then (evaluate n H r s1) (\<lambda>right s2. (binary_op H operator left right, s2)))"
  by (simp add: evaluate_Suc evaluate_binary_op_def)

lemma binary_op_or: "binary_op H kw_or a b = Inr (BooleanV (is_truthy H a \<or> is_truthy H b))"
  by (simp add: binary_op_def kw_or_def kw_and_def)

lemma binary_op_and: "binary_op H kw_and a b = Inr (BooleanV (is_truthy H a \<and> is_truthy H b))"
  by (simp add: binary_op_def kw_and_def)

lemma binary_op_div_zero:
  "h_eq H b (h_int H 0) \<Longrightarrow> binary_op H ''/'' (NumberV a) (NumberV b) = Inl (RuntimeError ''Division by zero'')"
  by (simp add: binary_op_def)

lemma binary_op_mod_zero:
  "h_eq H b (h_int H 0) \<Longrightarrow> binary_op H ''%'' (NumberV a) (NumberV b) = Inl ZeroDivisionError"
  by (simp add: binary_op_def py_mod_def)

lemma binary_op_eq: "binary_op H ''=='' a b = Inr (BooleanV (value_eq H a b))"
  by (simp add: binary_op_def)

lemma binary_op_ne: "binary_op H ''!='' a b = Inr (BooleanV (\<not> value_eq H a b))"
  by (simp add: binary_op_def)

subsection \<open>Logical operators\<close>

text \<open>
  C1, as the code has it. For every pair of expressions \<open>L\<close> and \<open>R\<close>, evaluating
  \<open>L and R\<close> or \<open>L or R\<close> evaluates \<open>L\<close> and then, whenever \<open>L\<close> yields a value,
  evaluates \<open>R\<close> as well, whatever the truthiness of \<open>L\<close>. An exception of either operand
  is the outcome; otherwise the result is the boolean conjunction (disjunction) of the
  two truthinesses, in the state that the evaluation of \<open>R\<close> left.
\<close>

theorem logical_operators_evaluate_both_operands:
  "evaluate (Suc n) H (BinaryOp L kw_and R) s =
     and_then (evaluate n H L s) (\<lambda>a s1.
     and_then (evaluate n H R s1) (\<lambda>b s2.
       (Inr (BooleanV (is_truthy H a \<and> is_truthy H b)), s2)))
   \<and> evaluate (Suc n) H (BinaryOp L kw_or R) s =
     and_then (evaluate n H L s) (\<lambda>a s1.
     and_then (evaluate n H R s1) (\<lambda>b s2.
       (Inr (BooleanV (is_truthy H a \<or> is_truthy H b)), s2)))"
  by (simp add: evaluate_BinaryOp binary_op_or binary_op_and)

text \<open>
  The claim as the specification states it (the right operand is evaluated only when the
  left one does not decide) fails: after the two declarations, the call of the first
  function yields \<open>true\<close> and prints nothing, yet evaluating "first() or second()" prints
  the line of the second function; and "false and second()" prints it too.
\<close>

theorem short_circuit_counterexample:
  "printed state_f_g = []
   \<and> fst (evaluate 4 exact_host (FunctionCall nm_f []) state_f_g) = Inr (BooleanV True)
   \<and> is_truthy exact_host (BooleanV True)
   \<and> printed (snd (evaluate 5 exact_host
        (BinaryOp (FunctionCall nm_f []) kw_or (FunctionCall nm_g [])) state_f_g)) = [''1'']
   \<and> \<not> is_truthy exact_host (BooleanV False)
   \<and> printed (snd (evaluate 5 exact_host
        (BinaryOp (BooleanLiteral False) kw_and (FunctionCall nm_g [])) state_f_g)) = [''1'']"
  by (simp add: state_f_g_def declarations_f_g_def run_simps binary_op_or binary_op_and)

subsection \<open>Equality\<close>

text \<open>
  C3, as the code has it. \<open>==\<close> and \<open>!=\<close> compare the underlying host values. For every
  two values \<open>a\<close> and \<open>b\<close> whose tags differ: if they are not a number and a boolean,
  \<open>a == b\<close> evaluates to false and \<open>a != b\<close> to true; if they are a number and a
  boolean, in either order, they are compared as host numbers, \<open>true\<close> as 1 and \<open>false\<close>
  as 0.
\<close>

theorem equality_of_different_tags:
  assumes "evaluate n H L s = (Inr a, s1)"
    and "evaluate n H R s1 = (Inr b, s2)"
    and "type_name a \<noteq> type_name b"
  shows "({type_name a, type_name b} \<noteq> {''number'', ''boolean''} \<longrightarrow>
            evaluate (Suc n) H (BinaryOp L ''=='' R) s = (Inr (BooleanV False), s2)
          \<and> evaluate (Suc n) H (BinaryOp L ''!='' R) s = (Inr (BooleanV True), s2))
       \<and> (\<forall>x c. a = NumberV x \<and> b = BooleanV c \<longrightarrow>
            evaluate (Suc n) H (BinaryOp L ''=='' R) s
              = (Inr (BooleanV (h_eq H x (h_int H (if c then 1 else 0)))), s2)
          \<and> evaluate (Suc n) H (BinaryOp L ''!='' R) s
              = (Inr (BooleanV (\<not> h_eq H x (h_int H (if c then 1 else 0)))), s2))
       \<and> (\<forall>x c. a = BooleanV c \<and> b = NumberV x \<longrightarrow>
            evaluate (Suc n) H (BinaryOp L ''=='' R) s
              = (Inr (BooleanV (h_eq H (h_int H (if c then 1 else 0)) x)), s2)
          \<and> evaluate (Suc n) H (BinaryOp L ''!='' R) s
              = (Inr (BooleanV (\<not> h_eq H (h_int H (if c then 1 else 0)) x)), s2))"
proof -
  have "{type_name a, type_name b} \<noteq> {''number'', ''boolean''} \<Longrightarrow> \<not> value_eq H a b"
    using assms(3) by (cases a; cases b) auto
  then show ?thesis
    using assms(1,2) by (auto simp: evaluate_BinaryOp binary_op_eq binary_op_ne)
qed

text \<open>
  The hypotheses hold for the number 1 and the string \<open>1\<close> (unequal), for the number 0
  and \<open>false\<close> (equal), and for \<open>true\<close> and the number 2 (unequal).
\<close>

theorem equality_of_different_tags_witness:
  "evaluate 1 exact_host (NumberLiteral 1) Interpreter_init = (Inr (NumberV 1), Interpreter_init)
   \<and> evaluate 1 exact_host (StringLiteral ''1'') Interpreter_init = (Inr (StringV ''1''), Interpreter_init)
   \<and> type_name (NumberV (1::rat)) \<noteq> type_name (StringV ''1'' :: rat SoorjValue)
   \<and> {type_name (NumberV (1::rat)), type_name (StringV ''1'' :: rat SoorjValue)} \<noteq> {''number'', ''boolean''}
   \<and> evaluate 2 exact_host (BinaryOp (NumberLiteral 1) ''=='' (StringLiteral ''1'')) Interpreter_init
       = (Inr (BooleanV False), Interpreter_init)
   \<and> evaluate 2 exact_host (BinaryOp (NumberLiteral 1) ''!='' (StringLiteral ''1'')) Interpreter_init
       = (Inr (BooleanV True), Interpreter_init)
   \<and> evaluate 1 exact_host (NumberLiteral 0) Interpreter_init = (Inr (NumberV 0), Interpreter_init)
   \<and> evaluate 1 exact_host (BooleanLiteral False) Interpreter_init = (Inr (BooleanV False), Interpreter_init)
   \<and> type_name (NumberV (0::rat)) \<noteq> type_name (BooleanV False :: rat SoorjValue)
   \<and> evaluate 2 exact_host (BinaryOp (NumberLiteral 0) ''=='' (BooleanLiteral False)) Interpreter_init
       = (Inr (BooleanV True), Interpreter_init)
   \<and> evaluate 2 exact_host (BinaryOp (NumberLiteral 0) ''!='' (BooleanLiteral False)) Interpreter_init
       = (Inr (BooleanV False), Interpreter_init)
   \<and> evaluate 1 exact_host (BooleanLiteral True) Interpreter_init = (Inr (BooleanV True), Interpreter_init)
   \<and> evaluate 1 exact_host (NumberLiteral 2) Interpreter_init = (Inr (NumberV 2), Interpreter_init)
   \<and> type_name (BooleanV True :: rat SoorjValue) \<noteq> type_name (NumberV (2::rat))
   \<and> evaluate 2 exact_host (BinaryOp (BooleanLiteral True) ''=='' (NumberLiteral 2)) Interpreter_init
       = (Inr (BooleanV False), Interpreter_init)
   \<and> evaluate 2 exact_host (BinaryOp (BooleanLiteral True) ''!='' (NumberLiteral 2)) Interpreter_init
       = (Inr (BooleanV True), Interpreter_init)"
  using equality_of_different_tags [where n = "Suc 0" and H = exact_host and L = "NumberLiteral 1"
      and s = Interpreter_init and a = "NumberV 1" and ?s1.0 = Interpreter_init
      and R = "StringLiteral ''1''" and b = "StringV ''1''" and ?s2.0 = Interpreter_init]
    equality_of_different_tags [where n = "Suc 0" and H = exact_host and L = "NumberLiteral 0"
      and s = Interpreter_init and a = "NumberV 0" and ?s1.0 = Interpreter_init
      and R = "BooleanLiteral False" and b = "BooleanV False" and ?s2.0 = Interpreter_init]
    equality_of_different_tags [where n = "Suc 0" and H = exact_host and L = "BooleanLiteral True"
      and s = Interpreter_init and a = "BooleanV True" and ?s1.0 = Interpreter_init
      and R = "NumberLiteral 2" and b = "NumberV 2" and ?s2.0 = Interpreter_init]
  by (auto simp: eval_nat_numeral evaluate_literals doubleton_eq_iff exact_host_def)

text \<open>
  The claim as the specification states it (values of different tags are never equal, a
  number never equals a boolean) fails: \<open>1 == true\<close> evaluates to true.
\<close>

theorem equality_counterexample:
  "type_name (NumberV (1::rat)) \<noteq> type_name (BooleanV True :: rat SoorjValue)
   \<and> evaluate 2 exact_host (BinaryOp (NumberLiteral 1) ''=='' (BooleanLiteral True)) Interpreter_init
       = (Inr (BooleanV True), Interpreter_init)
   \<and> evaluate 2 exact_host (BinaryOp (NumberLiteral 1) ''!='' (BooleanLiteral True)) Interpreter_init
       = (Inr (BooleanV False), Interpreter_init)"
  by (simp add: eval_nat_numeral evaluate_BinaryOp evaluate_literals binary_op_eq binary_op_ne exact_host_def)

subsection \<open>Division and remainder by zero\<close>

text \<open>
  C10. For all numbers \<open>a\<close> and \<open>b\<close> with \<open>b\<close> equal to zero, \<open>a / b\<close> raises the
  interpreter's RuntimeError "Division by zero", which \<open>interpret\<close> catches and prints;
  \<open>a % b\<close> has no guard and raises the host's ZeroDivisionError, which is not a
  RuntimeError and leaves \<open>interpret\<close> uncaught.
\<close>

theorem division_guard_only_for_slash:
  assumes "evaluate n H L s = (Inr (NumberV a), s1)"
    and "evaluate n H R s1 = (Inr (NumberV b), s2)"
    and "h_eq H b (h_int H 0)"
  shows "evaluate (Suc n) H (BinaryOp L ''/'' R) s = (Inl (RuntimeError ''Division by zero''), s2)
       \<and> evaluate (Suc n) H (BinaryOp L ''%'' R) s = (Inl ZeroDivisionError, s2)
       \<and> Interpreter_interpret (Suc (Suc n)) H [ExpressionStatement (BinaryOp L ''/'' R)] s =
           (Inr (), s2\<lparr>printed := printed s2 @ [''Runtime error: Division by zero'']\<rparr>)
       \<and> Interpreter_interpret (Suc (Suc n)) H [ExpressionStatement (BinaryOp L ''%'' R)] s =
           (Inl ZeroDivisionError, s2)"
  using assms
  by (simp add: evaluate_BinaryOp binary_op_div_zero binary_op_mod_zero Interpreter_interpret_def execute_Suc)


text \<open>The hypotheses hold for \<open>1 / 0\<close> and \<open>1 % 0\<close>.\<close>

theorem division_guard_only_for_slash_witness:
  "evaluate 1 exact_host (NumberLiteral 1) Interpreter_init = (Inr (NumberV 1), Interpreter_init)
   \<and> evaluate 1 exact_host (NumberLiteral 0) Interpreter_init = (Inr (NumberV 0), Interpreter_init)
   \<and> h_eq exact_host 0 (h_int exact_host 0)
   \<and> evaluate 2 exact_host (BinaryOp (NumberLiteral 1) ''/'' (NumberLiteral 0)) Interpreter_init
       = (Inl (RuntimeError ''Division by zero''), Interpreter_init)
   \<and> evaluate 2 exact_host (BinaryOp (NumberLiteral 1) ''%'' (NumberLiteral 0)) Interpreter_init
       = (Inl ZeroDivisionError, Interpreter_init)
   \<and> printed (snd (Interpreter_interpret 3 exact_host
         [ExpressionStatement (BinaryOp (NumberLiteral 1) ''/'' (NumberLiteral 0))] Interpreter_init))
       = [''Runtime error: Division by zero'']
   \<and> Interpreter_interpret 3 exact_host
         [ExpressionStatement (BinaryOp (NumberLiteral 1) ''%'' (NumberLiteral 0))] Interpreter_init
       = (Inl ZeroDivisionError, Interpreter_init)"
  using division_guard_only_for_slash [where n = "Suc 0" and H = exact_host and L = "NumberLiteral 1"
      and s = Interpreter_init and a = 1 and ?s1.0 = Interpreter_init
      and R = "NumberLiteral 0" and b = 0 and ?s2.0 = Interpreter_init]
  by (simp add: eval_nat_numeral evaluate_literals exact_host_def Interpreter_init_def)

subsection \<open>Assignment\<close>

lemma chain_not_Nil: "chain E \<noteq> []"
  by (cases E) simp

lemma chain_define: "chain (Environment_define E x v) = (chain E)[0 := (chain E ! 0)(x \<mapsto> v)]"
  by (cases E) (simp del: fun_upd_apply)

lemma assign_Inr:
  "Environment_assign E x v = Inr E' \<Longrightarrow>
     length (takeWhile (\<lambda>f. f x = None) (chain E)) < length (chain E) \<and>
     chain E' = (chain E)[length (takeWhile (\<lambda>f. f x = None) (chain E)) :=
                  (chain E ! length (takeWhile (\<lambda>f. f x = None) (chain E)))(x \<mapsto> v)]"
proof (induction E x v arbitrary: E' rule: Environment_assign.induct)
  case (1 vars p name v)
  show ?case
  proof (cases "vars name")
    case (Some old)
    with "1.prems" have "E' = Environment (vars(name \<mapsto> v)) p" by auto
    with Some show ?thesis by (simp del: fun_upd_apply)
  next
    case None
    show ?thesis
    proof (cases p)
      case pNone: None
      with None "1.prems" show ?thesis by simp
    next
      case (Some q)
      with None "1.prems" obtain q' where q': "Environment_assign q name v = Inr q'"
        and E': "E' = Environment vars (Some q')"
        by (auto split: sum.splits)
      from "1.IH"[OF _ Some q'] None
      have "length (takeWhile (\<lambda>f. f name = None) (chain q)) < length (chain q) \<and>
            chain q' = (chain q)[length (takeWhile (\<lambda>f. f name = None) (chain q)) :=
              (chain q ! length (takeWhile (\<lambda>f. f name = None) (chain q)))(name \<mapsto> v)]"
        by (simp del: fun_upd_apply)
      with None Some E' show ?thesis by (simp del: fun_upd_apply)
    qed
  qed
qed

lemma assign_Inl:
  "Environment_assign E x v = Inl e \<Longrightarrow>
     length (takeWhile (\<lambda>f. f x = None) (chain E)) = length (chain E) \<and>
     e = RuntimeError (''Undefined variable '' @ [CHR 0x27] @ x @ [CHR 0x27])"
proof (induction E x v rule: Environment_assign.induct)
  case (1 vars p name v)
  show ?case
  proof (cases "vars name")
    case (Some old)
    with "1.prems" show ?thesis by simp
  next
    case None
    show ?thesis
    proof (cases p)
      case pNone: None
      with None "1.prems" show ?thesis by simp
    next
      case (Some q)
      with None "1.prems" have "Environment_assign q name v = Inl e"
        by (auto split: sum.splits)
      with "1.IH"[OF _ Some] None Some show ?thesis by simp
    qed
  qed
qed


text \<open>
  C5. An assignment \<open>x = e\<close> whose right-hand side has the value \<open>v\<close> yields \<open>v\<close>, and
  changes the chain of the current environment in one place only: in the nearest
  environment that binds \<open>x\<close>, if there is one, and in the current environment itself
  otherwise. In both cases \<open>x\<close> is bound to \<open>v\<close> there and every other dictionary of the
  chain is as before.
\<close>

theorem assignment_updates_nearest_binding_or_defines:
  assumes "evaluate n H e s = (Inr v, s1)"
  shows "let r = evaluate (Suc n) H (Assignment x e) s;
             fs = chain (environment s1);
             i = length (takeWhile (\<lambda>f. f x = None) fs)
         in fst r = Inr v \<and> printed (snd r) = printed s1 \<and> next_id (snd r) = next_id s1 \<and>
            chain (environment (snd r)) =
              (if i < length fs then fs[i := (fs ! i)(x \<mapsto> v)] else fs[0 := (fs ! 0)(x \<mapsto> v)])"
proof (cases "Environment_assign (environment s1) x v")
  case (Inl err)
  from assign_Inl[OF Inl] assms Inl show ?thesis
    by (simp add: evaluate_Suc chain_define Let_def del: fun_upd_apply)
next
  case (Inr E')
  from assign_Inr[OF Inr] assms Inr show ?thesis
    by (simp add: evaluate_Suc Let_def del: fun_upd_apply)
qed


text \<open>
  Both cases occur: in \<open>state_nested\<close> an assignment to the name bound in the root changes
  the root, and an assignment to an unbound name defines it in the current environment.
\<close>

theorem assignment_witness:
  "evaluate 1 exact_host (StringLiteral ''2'') state_nested = (Inr (StringV ''2''), state_nested)
   \<and> chain (environment (snd (evaluate 2 exact_host (Assignment nm_a (StringLiteral ''2'')) state_nested)))
       = [Map.empty, [nm_a \<mapsto> StringV ''2'']]
   \<and> chain (environment (snd (evaluate 2 exact_host (Assignment nm_g (StringLiteral ''2'')) state_nested)))
       = [[nm_g \<mapsto> StringV ''2''], [nm_a \<mapsto> StringV ''1'']]"
  using assignment_updates_nearest_binding_or_defines [where n = "Suc 0" and H = exact_host
      and e = "StringLiteral ''2''" and s = state_nested and v = "StringV ''2''"
      and ?s1.0 = state_nested and x = nm_a]
    assignment_updates_nearest_binding_or_defines [where n = "Suc 0" and H = exact_host
      and e = "StringLiteral ''2''" and s = state_nested and v = "StringV ''2''"
      and ?s1.0 = state_nested and x = nm_g]
  by (simp add: eval_nat_numeral evaluate_literals state_nested_def nm_a_def nm_g_def Let_def)

subsection \<open>The chain keeps its length\<close>

text \<open>
  Evaluation and execution leave the chain of the current environment as long as it
  was: a call pushes one environment and removes it again. So at the end of the body
  of a call the current environment is the one the call pushed, and its parent, which
  \<open>restore_environment\<close> makes current, is the caller's environment.
\<close>

lemma depth_and_then:
  assumes "depth (snd r) = d"
    and "\<And>v s1. depth s1 = d \<Longrightarrow> depth (snd (f v s1)) = d"
  shows "depth (snd (and_then r f)) = d"
proof (cases r)
  case (Pair x s1)
  with assms show ?thesis by (cases x) auto
qed

lemma depth_execute_all:
  assumes "\<And>node s. depth (snd (exec node s)) = depth s"
  shows "depth (snd (execute_all exec stmts s)) = depth s"
proof (induction stmts arbitrary: s)
  case Nil
  show ?case by simp
next
  case (Cons stmt stmts)
  show ?case
    unfolding execute_all.simps
    by (rule depth_and_then) (simp_all add: assms Cons.IH)
qed

lemma depth_evaluate_arguments:
  assumes "\<And>node s. depth (snd (eval node s)) = depth s"
  shows "depth (snd (evaluate_arguments eval args s)) = depth s"
proof (induction args arbitrary: s)
  case Nil
  show ?case by simp
next
  case (Cons arg args)
  show ?case
    unfolding evaluate_arguments.simps
    by (rule depth_and_then, simp add: assms, rule depth_and_then) (simp_all add: Cons.IH)
qed

lemma depth_execute_while:
  assumes "\<And>node s. depth (snd (eval node s)) = depth s"
    and "\<And>node s. depth (snd (exec node s)) = depth s"
  shows "depth (snd (execute_while k eval exec H c body (s :: 'n Interpreter))) = depth s"
proof (induction k arbitrary: s)
  case 0
  show ?case by simp
next
  case (Suc k)
  show ?case
    unfolding execute_while.simps
  proof (rule depth_and_then)
    show "depth (snd (eval c s)) = depth s" by (rule assms(1))
  next
    fix v and s1 :: "'n Interpreter" assume d: "depth s1 = depth s"
    show "depth (snd (if \<not> is_truthy H v then (Inr (), s1)
            else and_then (execute_all exec body s1) (\<lambda>u s2. execute_while k eval exec H c body s2)))
          = depth s"
    proof (cases "is_truthy H v")
      case False
      with d show ?thesis by simp
    next
      case True
      have "depth (snd (and_then (execute_all exec body s1)
              (\<lambda>u s2. execute_while k eval exec H c body s2))) = depth s"
        by (rule depth_and_then) (simp_all add: depth_execute_all assms(2) d Suc.IH)
      with True show ?thesis by simp
    qed
  qed
qed

lemma length_chain_assign:
  "Environment_assign E x v = Inr E' \<Longrightarrow> length (chain E') = length (chain E)"
  by (drule assign_Inr) simp

lemma length_chain_define: "length (chain (Environment_define E x v)) = length (chain E)"
  by (simp add: chain_define)

lemma length_chain_fold_define:
  "length (chain (fold (\<lambda>(param, arg) env. Environment_define env param arg) zs E)) = length (chain E)"
  by (induction zs arbitrary: E) (auto simp: length_chain_define)

lemma depth_push: "depth (push_environment ps vs s) = Suc (depth s)"
  by (simp add: depth_def push_environment_def length_chain_fold_define)

lemma depth_restore: "depth s' = Suc (depth s) \<Longrightarrow> depth (restore_environment s') = depth s"
  by (cases "environment s'"; cases "environment s")
     (auto simp: depth_def restore_environment_def split: option.splits)

lemma restore_after_push:
  "depth s' = Suc (depth s) \<Longrightarrow> \<exists>prev_env. parent (environment s') = Some prev_env"
  by (cases "environment s'"; cases "environment s") (auto simp: depth_def split: option.splits)

lemma depth_SoorjFunction_call:
  assumes "\<And>node s. depth (snd (exec node s)) = depth s"
  shows "depth (snd (SoorjFunction_call exec fname ps body vs s)) = depth s"
proof (cases "length vs \<noteq> length ps")
  case True
  then show ?thesis by (simp add: SoorjFunction_call_def)
next
  case False
  have "depth (snd (execute_all exec body (push_environment ps vs s))) = Suc (depth s)"
    by (simp add: depth_execute_all assms depth_push)
  then have "depth (restore_environment (snd (execute_all exec body (push_environment ps vs s)))) = depth s"
    by (rule depth_restore)
  with False show ?thesis
    by (auto simp: SoorjFunction_call_def split: prod.splits sum.splits exn.splits)
qed

lemma depth_evaluate_body:
  assumes ev: "\<And>node s. depth (snd (eval node s)) = depth s"
    and ex: "\<And>node s. depth (snd (exec node s)) = depth s"
  shows "depth (snd (evaluate_body eval exec H node (s :: 'n Interpreter))) = depth s"
proof (cases node)
  case (Assignment target e)
  have "depth (snd (and_then (eval e s) (\<lambda>v s1.
       case Environment_assign (environment s1) target v of
         Inr env \<Rightarrow> (Inr v, s1\<lparr>environment := env\<rparr>)
       | Inl (RuntimeError m) \<Rightarrow>
           (Inr v, s1\<lparr>environment := Environment_define (environment s1) target v\<rparr>)
       | Inl e \<Rightarrow> (Inl e, s1)))) = depth s"
  proof (rule depth_and_then)
    show "depth (snd (eval e s)) = depth s" by (rule ev)
  next
    fix v and s1 :: "'n Interpreter" assume "depth s1 = depth s"
    then show "depth (snd (case Environment_assign (environment s1) target v of
         Inr env \<Rightarrow> (Inr v, s1\<lparr>environment := env\<rparr>)
       | Inl (RuntimeError m) \<Rightarrow>
           (Inr v, s1\<lparr>environment := Environment_define (environment s1) target v\<rparr>)
       | Inl e \<Rightarrow> (Inl e, s1))) = depth s"
      by (auto simp: depth_def length_chain_define length_chain_assign split: sum.splits exn.splits)
  qed
  with Assignment show ?thesis by simp
next
  case (BinaryOp l operator r)
  have "depth (snd (evaluate_binary_op eval H l operator r s)) = depth s"
    unfolding evaluate_binary_op_def
    by (rule depth_and_then, simp add: ev, rule depth_and_then) (simp_all add: ev)
  with BinaryOp show ?thesis by simp
next
  case (UnaryOp operator e)
  have "depth (snd (evaluate_unary_op eval H operator e s)) = depth s"
    unfolding evaluate_unary_op_def
    by (rule depth_and_then) (simp_all add: ev)
  with UnaryOp show ?thesis by simp
next
  case (FunctionCall name args)
  have "depth (snd (evaluate_function_call eval exec H name args s)) = depth s"
  proof (cases "Environment_get (environment s) name")
    case (Inl e)
    then show ?thesis by (simp add: evaluate_function_call_def)
  next
    case (Inr fv)
    show ?thesis
    proof (cases fv)
      case (FunctionV i func)
      have "depth (snd (and_then (evaluate_arguments eval args s) (\<lambda>vs s1.
                 case func of
                   SoorjFunction fname parameters body \<Rightarrow>
                     SoorjFunction_call exec fname parameters body vs s1
                 | BuiltinFunction fname b \<Rightarrow> BuiltinFunction_call H b vs s1))) = depth s"
      proof (rule depth_and_then)
        show "depth (snd (evaluate_arguments eval args s)) = depth s"
          by (rule depth_evaluate_arguments) (rule ev)
      next
        fix vs and s1 :: "'n Interpreter" assume d: "depth s1 = depth s"
        show "depth (snd (case func of
                   SoorjFunction fname parameters body \<Rightarrow>
                     SoorjFunction_call exec fname parameters body vs s1
                 | BuiltinFunction fname b \<Rightarrow> BuiltinFunction_call H b vs s1)) = depth s"
        proof (cases func)
          case (SoorjFunction fname parameters body)
          with d depth_SoorjFunction_call[of exec fname parameters body vs s1, OF ex]
          show ?thesis by simp
        next
          case (BuiltinFunction fname b)
          with d show ?thesis
            by (cases b) (simp_all add: builtin_gre_def depth_def)
        qed
      qed
      with Inr FunctionV show ?thesis by (simp add: evaluate_function_call_def)
    qed (simp_all add: Inr evaluate_function_call_def)
  qed
  with FunctionCall show ?thesis by simp
qed simp_all

lemma depth_execute_body:
  assumes ev: "\<And>node s. depth (snd (eval node s)) = depth s"
    and ex: "\<And>node s. depth (snd (exec node s)) = depth s"
  shows "depth (snd (execute_body n eval exec H node s)) = depth s"
proof -
  have dflt: "\<And>e. depth (snd (and_then (eval e s) (\<lambda>v s1. (Inr (Some v), s1)))) = depth s"
    by (rule depth_and_then) (simp_all add: ev)
  have all: "\<And>stmts s1. depth (snd (and_then (execute_all exec stmts s1) (\<lambda>u s2. (Inr None, s2)))) = depth s1"
    by (rule depth_and_then) (simp_all add: depth_execute_all ex)
  show ?thesis
  proof (cases node)
    case (IfStatement c then_branch else_branch)
    have "depth (snd (and_then (eval c s) (\<lambda>condition s1.
       if is_truthy H condition
       then and_then (execute_all exec then_branch s1) (\<lambda>u s2. (Inr None, s2))
       else
         (case else_branch of
            Some stmts \<Rightarrow> and_then (execute_all exec stmts s1) (\<lambda>u s2. (Inr None, s2))
          | None \<Rightarrow> (Inr None, s1))))) = depth s"
      by (rule depth_and_then) (auto simp: ev all split: option.splits)
    with IfStatement show ?thesis by simp
  next
    case (WhileStatement c body)
    have "depth (snd (and_then (execute_while n eval exec H c body s) (\<lambda>u s1. (Inr None, s1)))) = depth s"
      by (rule depth_and_then) (simp_all add: depth_execute_while ev ex)
    with WhileStatement show ?thesis by simp
  next
    case (ReturnStatement v)
    have "\<And>e. depth (snd (and_then (eval e s) (\<lambda>v s1. (Inl (ReturnValue v), s1)))) = depth s"
      by (rule depth_and_then) (simp_all add: ev)
    with ReturnStatement show ?thesis by (cases v) simp_all
  next
    case (FunctionDeclaration name parameters body)
    then show ?thesis by (simp add: depth_def length_chain_define)
  qed (use dflt all in simp_all)
qed

lemma depth_evaluate_execute:
  "(\<forall>node s. depth (snd (evaluate n H node s)) = depth s)
   \<and> (\<forall>node s. depth (snd (execute n H node s)) = depth s)"
proof (induction n)
  case 0
  show ?case by (simp add: evaluate_0 execute_0)
next
  case (Suc n)
  then show ?case
    by (simp add: evaluate_Suc execute_Suc depth_evaluate_body depth_execute_body)
qed

lemma call_restores_callers_environment:
  "\<exists>prev_env. parent (environment (snd (execute_all (execute n H) body (push_environment ps vs s))))
       = Some prev_env"
proof -
  have "depth (snd (execute_all (execute n H) body (push_environment ps vs s))) = Suc (depth s)"
    by (simp add: depth_execute_all depth_evaluate_execute depth_push)
  then show ?thesis by (rule restore_after_push)
qed

subsection \<open>Calls of user-defined functions\<close>

lemma fold_define_parent:
  "parent (fold (\<lambda>(param, arg) env. Environment_define env param arg) zs E) = parent E"
  by (induction zs arbitrary: E) (auto, metis Environment.sel(2) Environment_define.elims)

lemma fold_define_variables:
  "x \<notin> fst ` set zs \<Longrightarrow>
   variables (fold (\<lambda>(param, arg) env. Environment_define env param arg) zs E) x = variables E x"
proof (induction zs arbitrary: E)
  case Nil
  then show ?case by simp
next
  case (Cons z zs)
  obtain p a where z: "z = (p, a)" by (cases z)
  from Cons.prems z have "x \<noteq> p" "x \<notin> fst ` set zs" by auto
  with Cons.IH[of "Environment_define E p a"] z show ?case
    by (cases E) simp
qed

lemma get_unfold:
  "Environment_get E x =
     (case variables E x of
        Some v \<Rightarrow> Inr v
      | None \<Rightarrow> (case parent E of
                   Some q \<Rightarrow> Environment_get q x
                 | None \<Rightarrow> Inl (RuntimeError (''Undefined variable '' @ [CHR 0x27] @ x @ [CHR 0x27]))))"
  by (cases E) (simp split: option.splits)


text \<open>
  C4. A call of a user-defined function runs the body in a new environment whose parent
  is the interpreter's current environment at the time of the call (after the
  arguments have been evaluated): a name that is not a parameter is looked up in the
  caller's chain. The function value holds no environment of its definition.
\<close>

theorem call_environment_has_caller_as_parent:
  assumes "Environment_get (environment s) name = Inr (FunctionV i (SoorjFunction fname params body))"
    and "evaluate_arguments eval args s = (Inr vs, s1)"
    and "length vs = length params"
  shows "parent (environment (push_environment params vs s1)) = Some (environment s1)
       \<and> (\<forall>x. x \<notin> set params \<longrightarrow>
             Environment_get (environment (push_environment params vs s1)) x =
             Environment_get (environment s1) x)
       \<and> evaluate_function_call eval exec H name args s =
           (case execute_all exec body (push_environment params vs s1) of
              (Inr u, s') \<Rightarrow> (Inr NullV, restore_environment s')
            | (Inl (ReturnValue v), s') \<Rightarrow> (Inr v, restore_environment s')
            | (Inl e, s') \<Rightarrow> (Inl e, restore_environment s'))"
proof -
  let ?E = "environment (push_environment params vs s1)"
  have par: "parent ?E = Some (environment s1)"
    by (simp add: push_environment_def fold_define_parent)
  have "\<And>x. x \<notin> set params \<Longrightarrow> variables ?E x = None"
  proof -
    fix x assume "x \<notin> set params"
    then have "x \<notin> fst ` set (zip params vs)"
      by (auto dest: set_zip_leftD)
    then show "variables ?E x = None"
      by (simp add: push_environment_def fold_define_variables)
  qed
  then have free: "\<forall>x. x \<notin> set params \<longrightarrow> Environment_get ?E x = Environment_get (environment s1) x"
    using par by (simp add: get_unfold[of ?E])
  have "evaluate_function_call eval exec H name args s =
          SoorjFunction_call exec fname params body vs s1"
    using assms(1,2) by (simp add: evaluate_function_call_def)
  with assms(3) par free show ?thesis
    by (simp add: SoorjFunction_call_def)
qed


text \<open>
  In \<open>state_in_call\<close> the function was defined in the root, where U+0561 is \<open>1\<close>; called
  from the child environment, its body reads U+0561 as \<open>2\<close>, the caller's binding.
\<close>

theorem call_environment_witness:
  "Environment_get (environment state_in_call) nm_g = Inr (FunctionV 3 function_g_free_a)
   \<and> evaluate_arguments (evaluate 2 exact_host) [NullLiteral] state_in_call = (Inr [NullV], state_in_call)
   \<and> length [NullV :: rat SoorjValue] = length [nm_f]
   \<and> parent (environment (push_environment [nm_f] [NullV] state_in_call)) = Some (environment state_in_call)
   \<and> Environment_get (environment (push_environment [nm_f] [NullV] state_in_call)) nm_a = Inr (StringV ''2'')
   \<and> evaluate_function_call (evaluate 2 exact_host) (execute 2 exact_host) exact_host nm_g [NullLiteral]
        state_in_call = (Inr (StringV ''2''), state_in_call)"
  using call_environment_has_caller_as_parent [where s = state_in_call and name = nm_g and i = 3
      and fname = nm_g and params = "[nm_f]" and body = "[ReturnStatement (Some (Identifier nm_a))]"
      and eval = "evaluate 2 exact_host" and args = "[NullLiteral]" and vs = "[NullV]"
      and ?s1.0 = state_in_call and exec = "execute 2 exact_host" and H = exact_host]
  by (simp add: state_in_call_def function_g_free_a_def run_simps)

text \<open>
  C6. For a call of a user-defined function with the right number of arguments: if the
  body raises the return signal with value \<open>v\<close>, the call yields exactly \<open>v\<close>; if the
  body ends without raising, the call yields null; and no call ever ends with the
  return signal, so the signal does not pass the frame of the call.
\<close>

theorem return_value_is_call_result:
  assumes "length arguments = length parameters"
  shows "(execute_all exec body (push_environment parameters arguments s) = (Inl (ReturnValue v), s') \<longrightarrow>
            SoorjFunction_call exec fname parameters body arguments s = (Inr v, restore_environment s'))
       \<and> (execute_all exec body (push_environment parameters arguments s) = (Inr (), s') \<longrightarrow>
            SoorjFunction_call exec fname parameters body arguments s = (Inr NullV, restore_environment s'))
       \<and> (\<forall>w. fst (SoorjFunction_call exec fname parameters body arguments s) \<noteq> Inl (ReturnValue w))"
  using assms
  by (auto simp: SoorjFunction_call_def split: prod.splits sum.splits exn.splits)

text \<open>
  Both cases occur: a body that returns the string \<open>1\<close>, and a body that only evaluates
  an expression.
\<close>

theorem return_value_is_call_result_witness:
  "length ([] :: rat SoorjValue list) = length ([] :: string list)
   \<and> execute_all (execute 2 exact_host) [ReturnStatement (Some (StringLiteral ''1''))]
        (push_environment [] [] Interpreter_init)
       = (Inl (ReturnValue (StringV ''1'')), push_environment [] [] Interpreter_init)
   \<and> fst (SoorjFunction_call (execute 2 exact_host) nm_f [] [ReturnStatement (Some (StringLiteral ''1''))] []
        Interpreter_init) = Inr (StringV ''1'')
   \<and> execute_all (execute 2 exact_host) [ExpressionStatement (StringLiteral ''1'')]
        (push_environment [] [] Interpreter_init)
       = (Inr (), push_environment [] [] Interpreter_init)
   \<and> fst (SoorjFunction_call (execute 2 exact_host) nm_f [] [ExpressionStatement (StringLiteral ''1'')] []
        Interpreter_init) = Inr NullV"
  using return_value_is_call_result [where arguments = "[]" and parameters = "[]"
      and exec = "execute 2 exact_host" and body = "[ReturnStatement (Some (StringLiteral ''1''))]"
      and s = Interpreter_init and v = "StringV ''1''" and s' = "push_environment [] [] Interpreter_init"
      and fname = nm_f]
    return_value_is_call_result [where arguments = "[]" and parameters = "[]"
      and exec = "execute 2 exact_host" and body = "[ExpressionStatement (StringLiteral ''1'')]"
      and s = Interpreter_init and s' = "push_environment [] [] Interpreter_init"
      and fname = nm_f]
  by (simp add: eval_nat_numeral execute_Suc_app evaluate_Suc_app)


subsection \<open>String concatenation\<close>

text \<open>
  C2 at the inputs where it fails. With a string operand, \<open>+\<close> concatenates
  \<open>str(left.value)\<close> and \<open>str(right.value)\<close>, not the display forms: null is rendered
  \<open>None\<close> and the booleans \<open>True\<close> and \<open>False\<close>, where the display form
  (\<open>SoorjValue.__str__\<close>, which the built-in that prints uses) has the Armenian words.
\<close>

theorem plus_renders_underlying_value:
  "evaluate (Suc (Suc n)) H (BinaryOp (StringLiteral t) ''+'' NullLiteral) s
     = (Inr (StringV (t @ ''None'')), s)
   \<and> evaluate (Suc (Suc n)) H (BinaryOp (StringLiteral t) ''+'' (BooleanLiteral True)) s
     = (Inr (StringV (t @ ''True'')), s)
   \<and> evaluate (Suc (Suc n)) H (BinaryOp (BooleanLiteral False) ''+'' (StringLiteral t)) s
     = (Inr (StringV (''False'' @ t)), s)
   \<and> t @ display H NullV \<noteq> t @ ''None''
   \<and> t @ display H (BooleanV True) \<noteq> t @ ''True''
   \<and> display H (BooleanV False) @ t \<noteq> ''False'' @ t"
  by (simp add: evaluate_BinaryOp evaluate_literals binary_op_def str_null_def str_yes_def str_no_def)

text \<open>
  Where both operands are strings or numbers, and one of them is a string, the result is
  the concatenation of the display forms.
\<close>

lemma plus_displays_strings_and_numbers:
  assumes "type_name a = ''string'' \<or> type_name b = ''string''"
    and "type_name a \<in> {''string'', ''number''}"
    and "type_name b \<in> {''string'', ''number''}"
  shows "binary_op H ''+'' a b = Inr (StringV (display H a @ display H b))"
  using assms by (cases a; cases b) (simp_all add: binary_op_def)

subsection \<open>A return statement outside every call\<close>

text \<open>
  C7 at the input where it fails. A \<open>return\<close> at the top level of a program raises the
  return signal, and \<open>interpret\<close>, which catches RuntimeError only, lets it out: the run
  ends with the signal itself, and no "Runtime error" line is printed.
\<close>

theorem toplevel_return_escapes_interpret:
  "Interpreter_interpret (Suc (Suc n)) H [ReturnStatement (Some (NumberLiteral x))] s
     = (Inl (ReturnValue (NumberV x)), s)
   \<and> Interpreter_interpret (Suc n) H [ReturnStatement None] s = (Inl (ReturnValue NullV), s)"
  by (simp add: Interpreter_interpret_def execute_Suc_app evaluate_literals)

subsection \<open>Number to string and back\<close>







section \<open>Properties of the scanner\<close>

text \<open>
  What \<open>read_number\<close> does produce: started on a digit, a token of kind NUMBER whose
  lexeme is the run of digits and full stops that the scanner passed over, copied from
  the source as it is, the digit first. The number of full stops is not bounded.
\<close>

lemma read_number_loop_lexeme:
  "read_number_loop isdigit L acc = (lexeme, L') \<Longrightarrow>
     lexeme = acc @ take (position L' - position L) (drop (position L) (source L)) \<and>
     (\<forall>c \<in> set (take (position L' - position L) (drop (position L) (source L))). isdigit c \<or> c = 46)"
proof (induction isdigit L acc arbitrary: lexeme L' rule: read_number_loop.induct)
  case (1 isdigit L number_str)
  show ?case
  proof (cases "current_char L")
    case None
    with "1.prems" show ?thesis by (simp add: read_number_loop.simps[of isdigit L])
  next
    case (Some c)
    show ?thesis
    proof (cases "isdigit c \<or> c = 46")
      case False
      with Some "1.prems" show ?thesis by (simp add: read_number_loop.simps[of isdigit L])
    next
      case True
      with Some "1.prems"
      have rec: "read_number_loop isdigit (advance L) (number_str @ [c]) = (lexeme, L')"
        by (simp add: read_number_loop.simps[of isdigit L])
      from Some have p: "position L < length (source L)" and c: "source L ! position L = c"
        by (auto simp: current_char_def split: if_splits)
      from advance_steps[OF Some]
      have adv: "source (advance L) = source L" "position (advance L) = Suc (position L)"
        by simp_all
      from moves_on_read_number_loop[of "advance L" isdigit "number_str @ [c]"] rec adv
      have le: "Suc (position L) \<le> position L'"
        by (simp add: moves_on_def)
      then have diff: "position L' - position L = Suc (position L' - Suc (position L))"
        by simp
      have split: "take (position L' - position L) (drop (position L) (source L))
                    = c # take (position L' - Suc (position L)) (drop (Suc (position L)) (source L))"
        using p c by (simp add: diff Cons_nth_drop_Suc[symmetric])
      from "1.IH"[OF Some True rec] adv
      have "lexeme = (number_str @ [c]) @ take (position L' - Suc (position L)) (drop (Suc (position L)) (source L))
          \<and> (\<forall>x \<in> set (take (position L' - Suc (position L)) (drop (Suc (position L)) (source L))).
               isdigit x \<or> x = 46)"
        by simp
      with split True show ?thesis by auto
    qed
  qed
qed

lemma number_token_shape:
  assumes "current_char L = Some c" and "isdigit c"
    and "read_number isdigit L = (Token ty lexeme tline tcolumn, L')"
  shows "ty = NUMBER \<and> lexeme \<noteq> [] \<and> hd lexeme = c \<and> (\<forall>x \<in> set lexeme. isdigit x \<or> x = 46)
       \<and> lexeme = take (position L' - position L) (drop (position L) (source L))"
proof -
  from assms(3) obtain lx where loop: "read_number_loop isdigit L [] = (lx, L')"
    and ty: "ty = NUMBER" and lx: "lexeme = lx"
    by (auto simp: read_number_def split: prod.splits)
  from read_number_loop_lexeme[OF loop] lx
  have verbatim: "lexeme = take (position L' - position L) (drop (position L) (source L))"
    and chars: "\<forall>x \<in> set lexeme. isdigit x \<or> x = 46"
    by simp_all
  from assms(1,2) loop have "read_number_loop isdigit (advance L) [c] = (lx, L')"
    by (simp add: read_number_loop.simps[of isdigit L])
  from read_number_loop_lexeme[OF this] lx have "lexeme \<noteq> [] \<and> hd lexeme = c"
    by simp
  with ty verbatim chars show ?thesis by simp
qed


text \<open>
  C8 at an input where it fails. On the source text \<open>1.2.3\<close> the scanner produces one
  number token, whose lexeme is \<open>1.2.3\<close>: a digit-led run with two full stops, which
  the host does not parse as a double. (49, 50 and 51 are the digits 1, 2 and 3, and 46
  is the full stop.)
\<close>

theorem number_token_with_two_dots:
  assumes "isdigit 49" and "isdigit 50" and "isdigit 51"
  shows "tokenize isdigit [49, 46, 50, 46, 51]
           = Inr [Token NUMBER [49, 46, 50, 46, 51] 1 1, Token EOF [] 1 6]
       \<and> count_list [49, 46, 50, 46, 51] (46::nat) = 2"
  using assms
  by (simp add: tokenize_def Lexer_init_def tokenize_loop.simps skip_whitespace.simps
      read_number_def read_number_loop.simps current_char_def advance_def append_token_def)

text \<open>The hypotheses hold when the digits are the ASCII digits.\<close>

theorem number_token_with_two_dots_witness:
  "(48 \<le> (49::nat) \<and> (49::nat) \<le> 57) \<and> (48 \<le> (50::nat) \<and> (50::nat) \<le> 57)
   \<and> (48 \<le> (51::nat) \<and> (51::nat) \<le> 57)
   \<and> tokenize (\<lambda>c. 48 \<le> c \<and> c \<le> 57) [49, 46, 50, 46, 51]
       = Inr [Token NUMBER [49, 46, 50, 46, 51] 1 1, Token EOF [] 1 6]"
  using number_token_with_two_dots [where isdigit = "\<lambda>c. 48 \<le> c \<and> c \<le> 57"]
  by simp

end
